theory Spec2Isabelle
  imports Main "HOL-Library.Word"
begin

section \<open>The bridge of eth-portal: encode, validate, distribute\<close>

text \<open>
  A shallow embedding of \<^verbatim>\<open>src/eth_portal/bridge.py\<close>. The module talks to two kinds of
  outside parties: the chain-data provider (\<^verbatim>\<open>w3.eth.get_block\<close>,
  \<^verbatim>\<open>w3.eth.wait_for_transaction_receipt\<close>) and the Portal nodes
  (\<^verbatim>\<open>w3.provider.make_request\<close>). Every call to one of them, and every \<^verbatim>\<open>print\<close>, is
  recorded as an event at the end of a trace that is passed through the functions. A Python
  exception is the left summand of the result; the trace is returned on both paths, so
  that what happened before a raise stays visible.
\<close>

subsection \<open>Bytes and their hexadecimal text\<close>

type_synonym bytes = "8 word list"

definition hex_digit :: "nat \<Rightarrow> char" where
  "hex_digit n = ''0123456789abcdef'' ! n"

definition hex_byte :: "8 word \<Rightarrow> string" where
  "hex_byte b = [hex_digit (unat b div 16), hex_digit (unat b mod 16)]"

text \<open>Two lower-case hexadecimal digits per byte.\<close>

definition bytes_hex :: "bytes \<Rightarrow> string" where
  "bytes_hex bs = concat (map hex_byte bs)"

text \<open>
  Modelled from the spec: \<^verbatim>\<open>encode_hex\<close> is imported from \<^verbatim>\<open>eth_utils\<close> and is not under
  \<^verbatim>\<open>src/\<close>; the spec calls its results "hex-encoded byte strings". It is the
  \<^verbatim>\<open>0x\<close>-prefixed lower-case hexadecimal text of the bytes.
\<close>

definition encode_hex :: "bytes \<Rightarrow> string" where
  "encode_hex bs = ''0x'' @ bytes_hex bs"

text \<open>
  The hash of a web3 block is a \<^verbatim>\<open>HexBytes\<close>, and \<^verbatim>\<open>HexBytes.hex()\<close> (the package is not under
  \<^verbatim>\<open>src/\<close>) gives the hexadecimal text with the \<^verbatim>\<open>0x\<close> prefix, where \<^verbatim>\<open>bytes.hex()\<close> has none.
\<close>

definition hexbytes_hex :: "bytes \<Rightarrow> string" where
  "hexbytes_hex bs = ''0x'' @ bytes_hex bs"

subsection \<open>Errors, events and the outside parties\<close>

text \<open>
  \<open>ValidationError\<close> carries the fixed part of the message of its raise site (the
  \<^verbatim>\<open>repr\<close> of the block fields and of the header, which two of the messages interpolate,
  is left out). \<open>ProviderException\<close> is any exception that a call to an outside party
  raises (a refused connection, a timeout), \<open>LibraryException\<close> any exception that an
  imported conversion or encoding function raises (a field that is missing, a chain id
  that does not fit its encoding), each with its text. The module catches none of them.
\<close>

datatype error =
    ValidationError string
  | ProviderException string
  | LibraryException string

text \<open>A call to an outside party or to an imported function either raises or returns.\<close>

datatype 'a outcome = Raises string | Returns 'a

datatype event =
    Print "string list"
  | GetBlock bytes bool
  | WaitForTransactionReceipt bytes nat
  | MakeRequest nat string "string list"

text \<open>
  \<open>GetBlock h full\<close> is \<^verbatim>\<open>w3.eth.get_block(h, full_transactions=full)\<close>,
  \<open>WaitForTransactionReceipt h p\<close> is
  \<^verbatim>\<open>w3.eth.wait_for_transaction_receipt(h, poll_latency=p)\<close>, and
  \<open>MakeRequest i m ps\<close> is \<^verbatim>\<open>provider.make_request(m, ps)\<close> on the link to node \<open>i\<close>.
  An event is recorded when the call is made, whether it returns or raises.
\<close>

text \<open>
  A JSON-RPC reply either carries a result or an error member; \<^verbatim>\<open>make_request\<close> returns
  both kinds as a value.
\<close>

datatype rpc_response = RpcResult string | RpcError string

text \<open>
  A web3 link to one launched Portal node. What a request returns may depend on all that
  happened before it, so the reply is a function of the trace so far.
\<close>

record web3_link =
  link_id :: nat
  make_request :: "event list \<Rightarrow> string \<Rightarrow> string list \<Rightarrow> rpc_response outcome"

text \<open>
  The fields of a web3 block that the module reads. The other header fields live in the
  record's extension; only \<^verbatim>\<open>block_fields_to_header\<close> looks at them.
\<close>

record block_fields =
  hash :: bytes
  number :: int
  receiptsRoot :: bytes
  transactions :: "bytes list"

text \<open>The web3 access to core Ethereum content (\<^verbatim>\<open>w3.eth\<close>).\<close>

record ('m, 'w) web3 =
  get_block :: "event list \<Rightarrow> bytes \<Rightarrow> bool \<Rightarrow> 'm block_fields_scheme outcome"
  wait_for_transaction_receipt :: "event list \<Rightarrow> bytes \<Rightarrow> nat \<Rightarrow> 'w outcome"

text \<open>
  The functions that the module imports and that are not under \<^verbatim>\<open>src/\<close>: they are
  parameters of the model. \<open>'h\<close> is the py-evm header object, \<open>'w\<close> a web3 receipt,
  \<open>'r\<close> a py-evm receipt. The conversions from web3 fields and the builders of content
  keys and values (\<^verbatim>\<open>eth_portal.web3_decoding\<close>, \<^verbatim>\<open>eth_portal.web3_encoding\<close>) may raise on
  what they are given. \<^verbatim>\<open>rlp.encode\<close>, \<^verbatim>\<open>keccak\<close> and \<^verbatim>\<open>make_trie_root_and_nodes\<close> are applied
  to objects that those conversions have built and to byte strings; they are total.
\<close>

record ('m, 'h, 'w, 'r) library =
  block_fields_to_header :: "'m block_fields_scheme \<Rightarrow> 'h outcome"
  rlp_encode :: "'h \<Rightarrow> bytes"
  keccak :: "bytes \<Rightarrow> bytes"
  header_content_key :: "bytes \<Rightarrow> int \<Rightarrow> bytes outcome"
  receipt_fields_to_receipt :: "'w \<Rightarrow> int \<Rightarrow> 'r outcome"
  make_trie_root_and_nodes :: "'r list \<Rightarrow> bytes \<times> (bytes \<times> bytes) list"
  receipt_content_key :: "bytes \<Rightarrow> int \<Rightarrow> bytes outcome"
  receipt_content_value :: "'r list \<Rightarrow> bytes outcome"

text \<open>
  Modelled from the spec: \<^verbatim>\<open>header.hash\<close> is a property of py-evm's header class, which is
  not under \<^verbatim>\<open>src/\<close>. In the spec's words the header codec "computes a cryptographic hash
  over that encoding": the hash of a header object is the keccak of its RLP encoding.
\<close>

definition hdr_hash :: "('m, 'h, 'w, 'r) library \<Rightarrow> 'h \<Rightarrow> bytes" where
  "hdr_hash lib header = keccak lib (rlp_encode lib header)"

subsection \<open>PortalInserter\<close>

record portal_inserter =
  web3_links :: "web3_link list"

definition PortalInserter :: "web3_link list \<Rightarrow> portal_inserter" where
  "PortalInserter links = \<lparr>web3_links = links\<rparr>"

definition store_request :: "string \<Rightarrow> string \<Rightarrow> web3_link \<Rightarrow> event" where
  "store_request content_key_hex content_value_hex w3 =
     MakeRequest (link_id w3) ''portal_historyStore'' [content_key_hex, content_value_hex]"

text \<open>
  The \<^verbatim>\<open>for w3 in self._web3_links\<close> loop of \<^verbatim>\<open>push_history\<close>. The reply of a request is
  dropped; a request that raises ends the loop and the call.
\<close>

fun push_to_links ::
  "web3_link list \<Rightarrow> string \<Rightarrow> string \<Rightarrow> event list \<Rightarrow> (error + unit) \<times> event list" where
  "push_to_links [] content_key_hex content_value_hex tr = (Inr (), tr)"
| "push_to_links (w3 # rest) content_key_hex content_value_hex tr =
     (case make_request w3 tr ''portal_historyStore'' [content_key_hex, content_value_hex] of
        Raises x \<Rightarrow>
          (Inl (ProviderException x), tr @ [store_request content_key_hex content_value_hex w3])
      | Returns _ \<Rightarrow>
          push_to_links rest content_key_hex content_value_hex
            (tr @ [store_request content_key_hex content_value_hex w3]))"

definition push_print :: "string \<Rightarrow> string \<Rightarrow> event" where
  "push_print content_key_hex content_value_hex =
     Print [''Propagate new history content with key, value:'',
            content_key_hex, '','', content_value_hex]"

text \<open>
  \<^verbatim>\<open>push_history\<close> is a method: it gets the inserter as \<^verbatim>\<open>self\<close> and could assign to its
  attribute, so the model returns the inserter next to the result and the trace.
\<close>

definition push_history ::
  "portal_inserter \<Rightarrow> bytes \<Rightarrow> bytes \<Rightarrow> event list
     \<Rightarrow> (error + unit) \<times> portal_inserter \<times> event list" where
  "push_history self content_key content_value tr =
     (let content_key_hex = encode_hex content_key;
          content_value_hex = encode_hex content_value;
          tr1 = tr @ [push_print content_key_hex content_value_hex];
          (r, tr2) = push_to_links (web3_links self) content_key_hex content_value_hex tr1
      in (r, self, tr2))"

subsection \<open>Headers\<close>

definition block_fields_to_content ::
  "('m, 'h, 'w, 'r) library \<Rightarrow> 'm block_fields_scheme \<Rightarrow> int \<Rightarrow> error + bytes \<times> bytes" where
  "block_fields_to_content lib block_fields chain_id =
     (case block_fields_to_header lib block_fields of
        Raises x \<Rightarrow> Inl (LibraryException x)
      | Returns header \<Rightarrow>
          (let header_rlp = rlp_encode lib header
           in if keccak lib header_rlp \<noteq> hash block_fields then
                Inl (ValidationError ''Could not correctly encode header fields'')
              else if hdr_hash lib header \<noteq> hash block_fields then
                Inl (ValidationError
                       ''py-evm generated a different hash than we did manually'')
              else
                (case header_content_key lib (hash block_fields) chain_id of
                   Raises x \<Rightarrow> Inl (LibraryException x)
                 | Returns content_key \<Rightarrow> Inr (content_key, header_rlp))))"

definition propagate_header ::
  "('m, 'h, 'w, 'r) library \<Rightarrow> ('m, 'w) web3 \<Rightarrow> portal_inserter \<Rightarrow> int \<Rightarrow> bytes \<Rightarrow> event list
     \<Rightarrow> (error + 'm block_fields_scheme) \<times> portal_inserter \<times> event list" where
  "propagate_header lib w3 portal_inserter chain_id header_hash tr =
     (let tr1 = tr @ [GetBlock header_hash False] in
      case get_block w3 tr header_hash False of
        Raises x \<Rightarrow> (Inl (ProviderException x), portal_inserter, tr1)
      | Returns block_fields \<Rightarrow>
          (case block_fields_to_content lib block_fields chain_id of
             Inl e \<Rightarrow> (Inl e, portal_inserter, tr1)
           | Inr (content_key, content_value) \<Rightarrow>
               (case push_history portal_inserter content_key content_value tr1 of
                  (Inl e, inserter', tr2) \<Rightarrow> (Inl e, inserter', tr2)
                | (Inr _, inserter', tr2) \<Rightarrow> (Inr block_fields, inserter', tr2))))"

subsection \<open>Receipts\<close>

text \<open>
  The list comprehension of \<^verbatim>\<open>propagate_receipts\<close>: one wait per transaction hash, in the
  order of the list, each with \<^verbatim>\<open>poll_latency=2\<close>.
\<close>

fun collect_receipts ::
  "('m, 'w) web3 \<Rightarrow> bytes list \<Rightarrow> event list \<Rightarrow> (error + 'w list) \<times> event list" where
  "collect_receipts w3 [] tr = (Inr [], tr)"
| "collect_receipts w3 (txn_hash # rest) tr =
     (case wait_for_transaction_receipt w3 tr txn_hash 2 of
        Raises x \<Rightarrow> (Inl (ProviderException x), tr @ [WaitForTransactionReceipt txn_hash 2])
      | Returns receipt \<Rightarrow>
          (case collect_receipts w3 rest (tr @ [WaitForTransactionReceipt txn_hash 2]) of
             (Inl e, tr') \<Rightarrow> (Inl e, tr')
           | (Inr receipts, tr') \<Rightarrow> (Inr (receipt # receipts), tr')))"

text \<open>
  The list comprehension of \<^verbatim>\<open>encode_receipts_content\<close>: the receipts are converted one
  by one, in order, and the first conversion that raises ends it.
\<close>

fun convert_receipts :: "('m, 'h, 'w, 'r) library \<Rightarrow> 'w list \<Rightarrow> int \<Rightarrow> error + 'r list" where
  "convert_receipts lib [] block_number = Inr []"
| "convert_receipts lib (receipt # rest) block_number =
     (case receipt_fields_to_receipt lib receipt block_number of
        Raises x \<Rightarrow> Inl (LibraryException x)
      | Returns r \<Rightarrow>
          (case convert_receipts lib rest block_number of
             Inl e \<Rightarrow> Inl e
           | Inr rs \<Rightarrow> Inr (r # rs)))"

definition encode_receipts_content ::
  "('m, 'h, 'w, 'r) library \<Rightarrow> 'w list \<Rightarrow> int \<Rightarrow> bytes \<Rightarrow> int \<Rightarrow> bytes
     \<Rightarrow> error + bytes \<times> bytes" where
  "encode_receipts_content lib web3_receipts chain_id header_hash block_number receipt_root =
     (case convert_receipts lib web3_receipts block_number of
        Inl e \<Rightarrow> Inl e
      | Inr receipts \<Rightarrow>
          (let (calculated_root, _) = make_trie_root_and_nodes lib receipts
           in if calculated_root \<noteq> receipt_root then
                Inl (ValidationError
                       (''Could not correctly encode receipts for header ''
                          @ hexbytes_hex header_hash))
              else
                (case receipt_content_key lib header_hash chain_id of
                   Raises x \<Rightarrow> Inl (LibraryException x)
                 | Returns content_key \<Rightarrow>
                     (case receipt_content_value lib receipts of
                        Raises x \<Rightarrow> Inl (LibraryException x)
                      | Returns content_value \<Rightarrow> Inr (content_key, content_value)))))"

definition propagate_receipts ::
  "('m, 'h, 'w, 'r) library \<Rightarrow> ('m, 'w) web3 \<Rightarrow> portal_inserter \<Rightarrow> int
     \<Rightarrow> 'm block_fields_scheme \<Rightarrow> event list
     \<Rightarrow> (error + unit) \<times> portal_inserter \<times> event list" where
  "propagate_receipts lib w3 portal_inserter chain_id block_fields tr =
     (let tr1 = tr @ [Print [''Collecting receipts to propagate...'']] in
      case collect_receipts w3 (transactions block_fields) tr1 of
        (Inl e, tr2) \<Rightarrow> (Inl e, portal_inserter, tr2)
      | (Inr web3_receipts, tr2) \<Rightarrow>
          (let tr3 = tr2 @ [Print [''Collected receipts'']] in
           case encode_receipts_content lib web3_receipts chain_id (hash block_fields)
                  (number block_fields) (receiptsRoot block_fields) of
             Inl e \<Rightarrow> (Inl e, portal_inserter, tr3)
           | Inr (content_key, content_value) \<Rightarrow>
               push_history portal_inserter content_key content_value tr3))"

subsection \<open>The pipeline\<close>

definition handle_new_header ::
  "('m, 'h, 'w, 'r) library \<Rightarrow> ('m, 'w) web3 \<Rightarrow> portal_inserter \<Rightarrow> bytes \<Rightarrow> int \<Rightarrow> event list
     \<Rightarrow> (error + unit) \<times> portal_inserter \<times> event list" where
  "handle_new_header lib w3 portal_inserter header_hash chain_id tr =
     (case propagate_header lib w3 portal_inserter chain_id header_hash tr of
        (Inl e, inserter', tr1) \<Rightarrow> (Inl e, inserter', tr1)
      | (Inr block_fields, inserter', tr1) \<Rightarrow>
          propagate_receipts lib w3 inserter' chain_id block_fields tr1)"

text \<open>
  \<^verbatim>\<open>launch_trin_inserters\<close>, the context manager that starts the nodes (through
  \<^verbatim>\<open>launch_trin\<close>, which is not under \<^verbatim>\<open>src/\<close>) and hands their links to \<^verbatim>\<open>PortalInserter\<close>,
  is left out: what follows starts from an inserter that holds its links.
\<close>

subsection \<open>Reading a trace\<close>

text \<open>
  \<^verbatim>\<open>push_history\<close> prints one line, with the key and the value, before anything else: the
  line marks a call of \<^verbatim>\<open>push_history\<close> in the trace, also when the inserter holds no
  link.
\<close>

fun push_call_of :: "event \<Rightarrow> (string \<times> string) option" where
  "push_call_of (Print [t, k, c, v]) =
     (if t = ''Propagate new history content with key, value:'' \<and> c = '',''
      then Some (k, v) else None)"
| "push_call_of _ = None"

definition push_calls :: "event list \<Rightarrow> (string \<times> string) list" where
  "push_calls tr = List.map_filter push_call_of tr"

fun is_store_request :: "event \<Rightarrow> bool" where
  "is_store_request (MakeRequest _ _ _) = True"
| "is_store_request _ = False"

definition store_requests :: "event list \<Rightarrow> event list" where
  "store_requests tr = filter is_store_request tr"

fun is_wait :: "event \<Rightarrow> bool" where
  "is_wait (WaitForTransactionReceipt _ _) = True"
| "is_wait _ = False"

definition is_push_event :: "event \<Rightarrow> bool" where
  "is_push_event e = (is_store_request e \<or> push_call_of e \<noteq> None)"

definition is_receipt_fetch_event :: "event \<Rightarrow> bool" where
  "is_receipt_fetch_event e =
     (is_wait e \<or> e = Print [''Collecting receipts to propagate...'']
      \<or> e = Print [''Collected receipts''])"

text \<open>The request to a link, or the wait for a receipt, made at trace \<open>tr\<close> returns.\<close>

definition link_returns :: "web3_link \<Rightarrow> string \<Rightarrow> string \<Rightarrow> event list \<Rightarrow> bool" where
  "link_returns w3 k v tr =
     (case make_request w3 tr ''portal_historyStore'' [k, v] of
        Raises _ \<Rightarrow> False | Returns _ \<Rightarrow> True)"

definition wait_returns :: "('m, 'w) web3 \<Rightarrow> bytes \<Rightarrow> event list \<Rightarrow> bool" where
  "wait_returns w3 txn_hash tr =
     (case wait_for_transaction_receipt w3 tr txn_hash 2 of
        Raises _ \<Rightarrow> False | Returns _ \<Rightarrow> True)"

definition wait_event :: "bytes \<Rightarrow> event" where
  "wait_event txn_hash = WaitForTransactionReceipt txn_hash 2"

subsection \<open>A small world to run the model in\<close>

text \<open>
  Three kinds of node: one that stores, one that answers with a JSON-RPC error, one that
  cannot be reached (the request raises).
\<close>

definition node_ok :: "nat \<Rightarrow> web3_link" where
  "node_ok i = \<lparr>link_id = i, make_request = (\<lambda>tr m ps. Returns (RpcResult ''true''))\<rparr>"

definition node_rejecting :: "nat \<Rightarrow> web3_link" where
  "node_rejecting i =
     \<lparr>link_id = i, make_request = (\<lambda>tr m ps. Returns (RpcError ''content rejected''))\<rparr>"

definition node_down :: "nat \<Rightarrow> web3_link" where
  "node_down i = \<lparr>link_id = i, make_request = (\<lambda>tr m ps. Raises ''ConnectionError'')\<rparr>"

text \<open>
  A toy library: the header object is the receipts root followed by the block number, its
  encoding is itself, the hash of a byte string is the one-byte sum of its bytes, a
  receipt is a byte string and the trie root of a receipt list is the sum of all its
  bytes. A content key is a selector byte, the chain id in two bytes (low byte first) and
  the hash; a chain id that does not fit two bytes cannot be serialised.
\<close>

definition toy_content_key :: "8 word \<Rightarrow> bytes \<Rightarrow> int \<Rightarrow> bytes outcome" where
  "toy_content_key selector h c =
     (if 0 \<le> c \<and> c < 65536
      then Returns ([selector, word_of_int c, word_of_int (c div 256)] @ h)
      else Raises ''SerializationError'')"

definition toy_library :: "(unit, bytes, bytes, bytes) library" where
  "toy_library =
     \<lparr>block_fields_to_header = (\<lambda>b. Returns (receiptsRoot b @ [word_of_int (number b)])),
      rlp_encode = (\<lambda>h. h),
      keccak = (\<lambda>bs. [sum_list bs]),
      header_content_key = toy_content_key 0,
      receipt_fields_to_receipt = (\<lambda>w n. Returns w),
      make_trie_root_and_nodes = (\<lambda>rs. ([sum_list (concat rs)], [])),
      receipt_content_key = toy_content_key 2,
      receipt_content_value = (\<lambda>rs. Returns (concat rs))\<rparr>"

definition toy_block :: block_fields where
  "toy_block = \<lparr>hash = [10], number = 7, receiptsRoot = [3], transactions = [[1], [2]]\<rparr>"

text \<open>A block whose asserted hash is not the hash of its header.\<close>

definition toy_block_wrong_hash :: block_fields where
  "toy_block_wrong_hash = toy_block\<lparr>hash := [11]\<rparr>"

text \<open>
  A provider that knows one block and answers a wait with the receipt \<open>receipt_of h\<close> of
  the transaction \<open>h\<close>.
\<close>

definition toy_web3 :: "block_fields \<Rightarrow> (bytes \<Rightarrow> bytes) \<Rightarrow> (unit, bytes) web3" where
  "toy_web3 b receipt_of =
     \<lparr>get_block = (\<lambda>tr h full. if h = hash b then Returns b else Raises ''BlockNotFound''),
      wait_for_transaction_receipt = (\<lambda>tr h p. Returns (receipt_of h))\<rparr>"



text \<open>A receipt with a field changed: every byte is one more than it was.\<close>

definition mutated :: "bytes \<Rightarrow> bytes" where
  "mutated receipt = map (\<lambda>x. x + 1) receipt"

section \<open>Facts about traces\<close>

lemma push_calls_append: "push_calls (xs @ ys) = push_calls xs @ push_calls ys"
  by (simp add: push_calls_def List.map_filter_def)

lemma push_calls_Cons:
  "push_calls (e # tr) = (case push_call_of e of None \<Rightarrow> push_calls tr | Some c \<Rightarrow> c # push_calls tr)"
  by (simp add: push_calls_def List.map_filter_simps split: option.splits)

lemma push_calls_Nil: "push_calls [] = []"
  by (simp add: push_calls_def List.map_filter_simps)

lemma push_call_of_push_print: "push_call_of (push_print k v) = Some (k, v)"
  by (simp add: push_print_def)

lemma push_call_of_store_request: "push_call_of (store_request k v w3) = None"
  by (simp add: store_request_def)

lemma push_call_of_wait_event: "push_call_of (wait_event h) = None"
  by (simp add: wait_event_def)

lemma push_calls_store_requests: "push_calls (map (store_request k v) ls) = []"
  by (induction ls) (simp_all add: push_calls_Nil push_calls_Cons push_call_of_store_request)

lemma push_calls_waits: "push_calls (map wait_event hs) = []"
  by (induction hs) (simp_all add: push_calls_Nil push_calls_Cons push_call_of_wait_event)

lemma store_requests_append: "store_requests (xs @ ys) = store_requests xs @ store_requests ys"
  by (simp add: store_requests_def)

lemma store_requests_map: "store_requests (map (store_request k v) ls) = map (store_request k v) ls"
  by (induction ls) (simp_all add: store_requests_def store_request_def)

lemma store_requests_waits: "store_requests (map wait_event hs) = []"
  by (induction hs) (simp_all add: store_requests_def wait_event_def)

lemma store_requests_push_print: "store_requests [push_print k v] = []"
  by (simp add: store_requests_def push_print_def)

section \<open>The loops\<close>

subsection \<open>The loop over the links\<close>

lemma push_to_links_all_return:
  "(\<And>i. i < length links \<Longrightarrow>
         link_returns (links ! i) k v (tr @ map (store_request k v) (take i links)))
   \<Longrightarrow> push_to_links links k v tr = (Inr (), tr @ map (store_request k v) links)"
proof (induction links arbitrary: tr)
  case Nil
  show ?case by simp
next
  case (Cons w3 rest)
  from Cons.prems [of 0] obtain resp
    where first: "make_request w3 tr ''portal_historyStore'' [k, v] = Returns resp"
    by (auto simp: link_returns_def split: outcome.splits)
  have "push_to_links rest k v (tr @ [store_request k v w3])
          = (Inr (), (tr @ [store_request k v w3]) @ map (store_request k v) rest)"
  proof (rule Cons.IH)
    fix i assume "i < length rest"
    with Cons.prems [of "Suc i"]
    show "link_returns (rest ! i) k v
            ((tr @ [store_request k v w3]) @ map (store_request k v) (take i rest))"
      by simp
  qed
  with first show ?case by simp
qed

lemma push_to_links_raise:
  "n < length links \<Longrightarrow>
   (\<And>i. i < n \<Longrightarrow>
         link_returns (links ! i) k v (tr @ map (store_request k v) (take i links))) \<Longrightarrow>
   make_request (links ! n) (tr @ map (store_request k v) (take n links))
      ''portal_historyStore'' [k, v] = Raises x
   \<Longrightarrow> push_to_links links k v tr
         = (Inl (ProviderException x), tr @ map (store_request k v) (take (Suc n) links))"
proof (induction links arbitrary: tr n)
  case Nil
  then show ?case by simp
next
  case (Cons w3 rest)
  show ?case
  proof (cases n)
    case 0
    with Cons.prems(3) show ?thesis by simp
  next
    case (Suc m)
    from Cons.prems(2) [of 0] Suc obtain resp
      where first: "make_request w3 tr ''portal_historyStore'' [k, v] = Returns resp"
      by (auto simp: link_returns_def split: outcome.splits)
    have "push_to_links rest k v (tr @ [store_request k v w3])
            = (Inl (ProviderException x),
               (tr @ [store_request k v w3]) @ map (store_request k v) (take (Suc m) rest))"
    proof (rule Cons.IH)
      show "m < length rest" using Cons.prems(1) Suc by simp
    next
      fix i assume "i < m"
      with Cons.prems(2) [of "Suc i"] Suc
      show "link_returns (rest ! i) k v
              ((tr @ [store_request k v w3]) @ map (store_request k v) (take i rest))"
        by simp
    next
      from Cons.prems(3) Suc
      show "make_request (rest ! m)
              ((tr @ [store_request k v w3]) @ map (store_request k v) (take m rest))
              ''portal_historyStore'' [k, v] = Raises x"
        by simp
    qed
    with first Suc show ?thesis by simp
  qed
qed

lemma push_to_links_prefix:
  "\<exists>n. n \<le> length links
      \<and> snd (push_to_links links k v tr) = tr @ map (store_request k v) (take n links)
      \<and> (fst (push_to_links links k v tr) = Inr () \<or>
          (\<exists>x. fst (push_to_links links k v tr) = Inl (ProviderException x)))
      \<and> (fst (push_to_links links k v tr) = Inr () \<longrightarrow> n = length links)"
proof (induction links arbitrary: tr)
  case Nil
  show ?case by simp
next
  case (Cons w3 rest)
  show ?case
  proof (cases "make_request w3 tr ''portal_historyStore'' [k, v]")
    case (Raises x)
    then have "snd (push_to_links (w3 # rest) k v tr)
                 = tr @ map (store_request k v) (take 1 (w3 # rest))"
      and "fst (push_to_links (w3 # rest) k v tr) = Inl (ProviderException x)"
      by simp_all
    then show ?thesis
      by (intro exI [of _ 1]) simp
  next
    case (Returns resp)
    from Cons.IH [of "tr @ [store_request k v w3]"] obtain n where
      n: "n \<le> length rest"
         "snd (push_to_links rest k v (tr @ [store_request k v w3]))
            = (tr @ [store_request k v w3]) @ map (store_request k v) (take n rest)"
         "fst (push_to_links rest k v (tr @ [store_request k v w3])) = Inr () \<or>
          (\<exists>x. fst (push_to_links rest k v (tr @ [store_request k v w3])) = Inl (ProviderException x))"
         "fst (push_to_links rest k v (tr @ [store_request k v w3])) = Inr () \<longrightarrow> n = length rest"
      by blast
    with Returns show ?thesis
      by (intro exI [of _ "Suc n"]) simp
  qed
qed


subsection \<open>push_history\<close>

lemma push_history_inserter: "fst (snd (push_history self content_key content_value tr)) = self"
  by (simp add: push_history_def Let_def split: prod.splits)

lemma push_history_all_return:
  assumes "\<And>i. i < length (web3_links self) \<Longrightarrow>
             link_returns (web3_links self ! i) (encode_hex content_key) (encode_hex content_value)
               (tr @ push_print (encode_hex content_key) (encode_hex content_value)
                   # map (store_request (encode_hex content_key) (encode_hex content_value))
                       (take i (web3_links self)))"
  shows "push_history self content_key content_value tr
           = (Inr (), self,
              tr @ push_print (encode_hex content_key) (encode_hex content_value)
                 # map (store_request (encode_hex content_key) (encode_hex content_value)) (web3_links self))"
proof -
  have "push_to_links (web3_links self) (encode_hex content_key) (encode_hex content_value)
          (tr @ [push_print (encode_hex content_key) (encode_hex content_value)])
        = (Inr (), (tr @ [push_print (encode_hex content_key) (encode_hex content_value)])
             @ map (store_request (encode_hex content_key) (encode_hex content_value)) (web3_links self))"
    by (rule push_to_links_all_return) (use assms in simp)
  then show ?thesis
    by (simp add: push_history_def Let_def)
qed

lemma push_history_raise:
  assumes "n < length (web3_links self)"
    and "\<And>i. i < n \<Longrightarrow>
             link_returns (web3_links self ! i) (encode_hex content_key) (encode_hex content_value)
               (tr @ push_print (encode_hex content_key) (encode_hex content_value)
                   # map (store_request (encode_hex content_key) (encode_hex content_value))
                       (take i (web3_links self)))"
    and "make_request (web3_links self ! n)
           (tr @ push_print (encode_hex content_key) (encode_hex content_value)
               # map (store_request (encode_hex content_key) (encode_hex content_value))
                   (take n (web3_links self)))
           ''portal_historyStore'' [encode_hex content_key, encode_hex content_value] = Raises x"
  shows "push_history self content_key content_value tr
           = (Inl (ProviderException x), self,
              tr @ push_print (encode_hex content_key) (encode_hex content_value)
                 # map (store_request (encode_hex content_key) (encode_hex content_value))
                     (take (Suc n) (web3_links self)))"
proof -
  have "push_to_links (web3_links self) (encode_hex content_key) (encode_hex content_value)
          (tr @ [push_print (encode_hex content_key) (encode_hex content_value)])
        = (Inl (ProviderException x), (tr @ [push_print (encode_hex content_key) (encode_hex content_value)])
             @ map (store_request (encode_hex content_key) (encode_hex content_value))
                 (take (Suc n) (web3_links self)))"
    by (rule push_to_links_raise) (use assms in simp_all)
  then show ?thesis
    by (simp add: push_history_def Let_def)
qed

lemma push_history_prefix:
  "\<exists>n r. n \<le> length (web3_links self)
      \<and> push_history self content_key content_value tr
          = (r, self,
             tr @ push_print (encode_hex content_key) (encode_hex content_value)
                # map (store_request (encode_hex content_key) (encode_hex content_value))
                    (take n (web3_links self)))
      \<and> (r = Inr () \<or> (\<exists>x. r = Inl (ProviderException x)))
      \<and> (r = Inr () \<longrightarrow> n = length (web3_links self))"
proof -
  let ?k = "encode_hex content_key" and ?v = "encode_hex content_value"
  let ?p = "push_to_links (web3_links self) ?k ?v (tr @ [push_print ?k ?v])"
  from push_to_links_prefix [of "web3_links self" ?k ?v "tr @ [push_print ?k ?v]"]
  obtain n where n: "n \<le> length (web3_links self)"
    "snd ?p = (tr @ [push_print ?k ?v]) @ map (store_request ?k ?v) (take n (web3_links self))"
    "fst ?p = Inr () \<or> (\<exists>x. fst ?p = Inl (ProviderException x))"
    "fst ?p = Inr () \<longrightarrow> n = length (web3_links self)"
    by blast
  have "push_history self content_key content_value tr = (fst ?p, self, snd ?p)"
    by (simp add: push_history_def Let_def split: prod.splits)
  with n show ?thesis
    by (intro exI [of _ n] exI [of _ "fst ?p"]) simp
qed


subsection \<open>The waits for the receipts\<close>


lemma collect_receipts_constant:
  "(\<And>t h. h \<in> set txns \<Longrightarrow> wait_for_transaction_receipt w3 t h 2 = Returns (receipt_of h))
   \<Longrightarrow> collect_receipts w3 txns tr = (Inr (map receipt_of txns), tr @ map wait_event txns)"
  by (induction txns arbitrary: tr) (simp_all add: wait_event_def)

lemma collect_receipts_prefix:
  "\<exists>n. n \<le> length txns
      \<and> snd (collect_receipts w3 txns tr) = tr @ map wait_event (take n txns)
      \<and> ((\<exists>rs. fst (collect_receipts w3 txns tr) = Inr rs) \<or>
          (\<exists>x. fst (collect_receipts w3 txns tr) = Inl (ProviderException x)))
      \<and> ((\<exists>rs. fst (collect_receipts w3 txns tr) = Inr rs) \<longrightarrow> n = length txns)"
proof (induction txns arbitrary: tr)
  case Nil
  show ?case by simp
next
  case (Cons h rest)
  show ?case
  proof (cases "wait_for_transaction_receipt w3 tr h 2")
    case (Raises x)
    then have "snd (collect_receipts w3 (h # rest) tr) = tr @ map wait_event (take 1 (h # rest))"
      and "fst (collect_receipts w3 (h # rest) tr) = Inl (ProviderException x)"
      by (simp_all add: wait_event_def)
    then show ?thesis
      by (intro exI [of _ 1]) simp
  next
    case (Returns rc)
    let ?c = "collect_receipts w3 rest (tr @ [wait_event h])"
    from Cons.IH [of "tr @ [wait_event h]"] obtain n where
      n: "n \<le> length rest"
         "snd ?c = (tr @ [wait_event h]) @ map wait_event (take n rest)"
         "(\<exists>rs. fst ?c = Inr rs) \<or> (\<exists>x. fst ?c = Inl (ProviderException x))"
         "(\<exists>rs. fst ?c = Inr rs) \<longrightarrow> n = length rest"
      by blast
    have step: "collect_receipts w3 (h # rest) tr
            = (case ?c of (Inl e, tr') \<Rightarrow> (Inl e, tr')
               | (Inr receipts, tr') \<Rightarrow> (Inr (rc # receipts), tr'))"
      using Returns by (simp add: wait_event_def)
    show ?thesis
    proof (cases "fst ?c")
      case (Inl e)
      with step have "collect_receipts w3 (h # rest) tr = (Inl e, snd ?c)"
        by (cases ?c) simp
      with n Inl show ?thesis
        by (intro exI [of _ "Suc n"]) auto
    next
      case (Inr rs)
      with step have "collect_receipts w3 (h # rest) tr = (Inr (rc # rs), snd ?c)"
        by (cases ?c) simp
      with n Inr show ?thesis
        by (intro exI [of _ "Suc n"]) auto
    qed
  qed
qed

lemma collect_receipts_stops:
  "fst (collect_receipts w3 txns tr) = Inl e \<Longrightarrow>
   \<exists>n x. n < length txns \<and> e = ProviderException x
     \<and> snd (collect_receipts w3 txns tr) = tr @ map wait_event (take (Suc n) txns)
     \<and> wait_for_transaction_receipt w3 (tr @ map wait_event (take n txns)) (txns ! n) 2
         = Raises x
     \<and> (\<forall>i<n. wait_returns w3 (txns ! i) (tr @ map wait_event (take i txns)))"
proof (induction txns arbitrary: tr)
  case Nil
  then show ?case by simp
next
  case (Cons h rest)
  show ?case
  proof (cases "wait_for_transaction_receipt w3 tr h 2")
    case (Raises x)
    with Cons.prems show ?thesis
      by (intro exI [of _ 0] exI [of _ x]) (simp add: wait_event_def)
  next
    case (Returns rc)
    let ?tr = "tr @ [wait_event h]"
    let ?c = "collect_receipts w3 rest ?tr"
    have step: "collect_receipts w3 (h # rest) tr
            = (case ?c of (Inl e, tr') \<Rightarrow> (Inl e, tr')
               | (Inr receipts, tr') \<Rightarrow> (Inr (rc # receipts), tr'))"
      using Returns by (simp add: wait_event_def)
    with Cons.prems have failed: "fst ?c = Inl e"
      by (cases ?c) (auto split: sum.splits)
    with step have same: "snd (collect_receipts w3 (h # rest) tr) = snd ?c"
      by (cases ?c) simp
    from Cons.IH [OF failed] obtain n x where
      n: "n < length rest" "e = ProviderException x"
        "snd ?c = ?tr @ map wait_event (take (Suc n) rest)"
        "wait_for_transaction_receipt w3 (?tr @ map wait_event (take n rest)) (rest ! n) 2
           = Raises x"
      and before: "\<forall>i<n. wait_returns w3 (rest ! i) (?tr @ map wait_event (take i rest))"
      by blast
    have "wait_returns w3 ((h # rest) ! i) (tr @ map wait_event (take i (h # rest)))"
      if "i < Suc n" for i
    proof (cases i)
      case 0
      with Returns show ?thesis by (simp add: wait_returns_def)
    next
      case (Suc j)
      with that before show ?thesis by simp
    qed
    with n same show ?thesis
      by (intro exI [of _ "Suc n"] exI [of _ x]) simp
  qed
qed


section \<open>The distributor\<close>

lemmas hex_defs = encode_hex_def bytes_hex_def hex_byte_def hex_digit_def

lemma propagate_header_inserter:
  "fst (snd (propagate_header lib w3 inserter cid hh tr)) = inserter"
proof -
  have "fst (snd (case push_history inserter k v t of
                    (Inl e, inserter', tr2) \<Rightarrow> (Inl e, inserter', tr2)
                  | (Inr u, inserter', tr2) \<Rightarrow> (Inr b, inserter', tr2))) = inserter"
    for k v t and b :: "'a block_fields_scheme"
    using push_history_inserter [of inserter k v t]
    by (cases "push_history inserter k v t") (auto split: sum.splits)
  then show ?thesis
    by (simp add: propagate_header_def Let_def split: outcome.splits sum.splits prod.splits)
qed

lemma propagate_receipts_inserter:
  "fst (snd (propagate_receipts lib w3 inserter cid b tr)) = inserter"
  by (simp add: propagate_receipts_def Let_def push_history_inserter
           split: sum.splits prod.splits)

lemma handle_new_header_inserter:
  "fst (snd (handle_new_header lib w3 inserter hh cid tr)) = inserter"
proof (cases "propagate_header lib w3 inserter cid hh tr")
  case (fields r inserter' tr1)
  with propagate_header_inserter [of lib w3 inserter cid hh tr]
  have same: "inserter' = inserter" by simp
  show ?thesis
    using fields same propagate_receipts_inserter [of lib w3 inserter cid _ tr1]
    by (cases r) (simp_all add: handle_new_header_def)
qed

text \<open>
  Claim C9. \<^verbatim>\<open>push_history\<close> never changes the inserter: after every call, whether it
  returns or raises, the inserter is the one it was called on, so its links are the same
  handles in the same order. The links are what the constructor was given, and a whole
  run of \<^verbatim>\<open>handle_new_header\<close> leaves the inserter as it was, too.
\<close>

theorem push_history_leaves_links_unchanged:
  "fst (snd (push_history self content_key content_value tr)) = self
   \<and> web3_links (fst (snd (push_history self content_key content_value tr))) = web3_links self
   \<and> web3_links (PortalInserter links) = links
   \<and> fst (snd (handle_new_header lib w3 self header_hash chain_id tr)) = self"
  by (simp add: push_history_inserter handle_new_header_inserter PortalInserter_def)

lemma store_requests_push:
  "store_requests (tr @ push_print k v # map (store_request k v) ls)
     = store_requests tr @ map (store_request k v) ls"
  using store_requests_map [of k v ls]
  by (simp add: store_requests_def push_print_def)

lemma push_calls_push:
  "push_calls (tr @ push_print k v # map (store_request k v) ls) = push_calls tr @ [(k, v)]"
  by (simp add: push_calls_append push_calls_Cons push_call_of_push_print
        push_calls_store_requests)

text \<open>
  Claim C8. The store requests that a call of \<^verbatim>\<open>push_history\<close> adds to the trace are
  requests of the method \<^verbatim>\<open>portal_historyStore\<close> whose two parameters are the hex text of
  the content key and the hex text of the content value; every link that is reached gets
  this same pair.
\<close>

theorem store_requests_carry_hex_key_and_value:
  "\<exists>n. n \<le> length (web3_links self)
     \<and> store_requests (snd (snd (push_history self content_key content_value tr)))
         = store_requests tr
           @ map (\<lambda>w3. MakeRequest (link_id w3) ''portal_historyStore''
                          [encode_hex content_key, encode_hex content_value])
               (take n (web3_links self))"
proof -
  from push_history_prefix [of self content_key content_value tr] obtain n r where
    n: "n \<le> length (web3_links self)"
    and run: "push_history self content_key content_value tr
          = (r, self,
             tr @ push_print (encode_hex content_key) (encode_hex content_value)
                # map (store_request (encode_hex content_key) (encode_hex content_value))
                    (take n (web3_links self)))"
    by blast
  have "store_requests (snd (snd (push_history self content_key content_value tr)))
          = store_requests tr
            @ map (store_request (encode_hex content_key) (encode_hex content_value)) (take n (web3_links self))"
    by (simp add: run store_requests_push)
  moreover have "store_request (encode_hex content_key) (encode_hex content_value)
          = (\<lambda>w3. MakeRequest (link_id w3) ''portal_historyStore''
                          [encode_hex content_key, encode_hex content_value])"
    by (rule ext) (simp add: store_request_def)
  ultimately show ?thesis using n by auto
qed

theorem store_requests_carry_hex_key_and_value_witness:
  "store_requests (snd (snd (push_history (PortalInserter [node_ok 0, node_ok 1]) [171] [1, 255] [])))
     = [MakeRequest 0 ''portal_historyStore'' [''0xab'', ''0x01ff''],
        MakeRequest 1 ''portal_historyStore'' [''0xab'', ''0x01ff'']]"
  using store_requests_carry_hex_key_and_value [of "PortalInserter [node_ok 0, node_ok 1]" "[171]" "[1, 255]" "[]"]
  by (simp add: push_history_def Let_def node_ok_def PortalInserter_def hex_defs store_requests_def store_request_def push_print_def)




text \<open>
  Claim C4, as the code has it. Nothing in \<^verbatim>\<open>push_history\<close> catches an exception. With
  every earlier request returned: when the request to the link at position \<open>n\<close> raises,
  the requests made are those to the links up to and including that one, in order, no
  later link is tried, and the exception leaves \<^verbatim>\<open>push_history\<close>. When that request returns
  a JSON-RPC error reply instead, the reply is dropped and, the later requests returning
  too, every link is tried and the call returns.
\<close>

theorem push_history_raise_ends_fan_out:
  assumes "n < length (web3_links self)"
    and "\<forall>i<n. link_returns (web3_links self ! i) (encode_hex content_key)
                  (encode_hex content_value)
                  (tr @ push_print (encode_hex content_key) (encode_hex content_value)
                      # map (store_request (encode_hex content_key) (encode_hex content_value))
                          (take i (web3_links self)))"
  shows "(make_request (web3_links self ! n)
            (tr @ push_print (encode_hex content_key) (encode_hex content_value)
                # map (store_request (encode_hex content_key) (encode_hex content_value))
                    (take n (web3_links self)))
            ''portal_historyStore'' [encode_hex content_key, encode_hex content_value] = Raises x
          \<longrightarrow> push_history self content_key content_value tr
                = (Inl (ProviderException x), self,
                   tr @ push_print (encode_hex content_key) (encode_hex content_value)
                      # map (store_request (encode_hex content_key) (encode_hex content_value))
                          (take (Suc n) (web3_links self))))
       \<and> (make_request (web3_links self ! n)
            (tr @ push_print (encode_hex content_key) (encode_hex content_value)
                # map (store_request (encode_hex content_key) (encode_hex content_value))
                    (take n (web3_links self)))
            ''portal_historyStore'' [encode_hex content_key, encode_hex content_value]
              = Returns (RpcError msg)
          \<and> (\<forall>i. n < i \<and> i < length (web3_links self) \<longrightarrow>
                 link_returns (web3_links self ! i) (encode_hex content_key)
                   (encode_hex content_value)
                   (tr @ push_print (encode_hex content_key) (encode_hex content_value)
                       # map (store_request (encode_hex content_key) (encode_hex content_value))
                           (take i (web3_links self))))
          \<longrightarrow> push_history self content_key content_value tr
                = (Inr (), self,
                   tr @ push_print (encode_hex content_key) (encode_hex content_value)
                      # map (store_request (encode_hex content_key) (encode_hex content_value))
                          (web3_links self)))"
proof (intro conjI impI)
  assume "make_request (web3_links self ! n)
            (tr @ push_print (encode_hex content_key) (encode_hex content_value)
                # map (store_request (encode_hex content_key) (encode_hex content_value))
                    (take n (web3_links self)))
            ''portal_historyStore'' [encode_hex content_key, encode_hex content_value] = Raises x"
  with assms show "push_history self content_key content_value tr
                = (Inl (ProviderException x), self,
                   tr @ push_print (encode_hex content_key) (encode_hex content_value)
                      # map (store_request (encode_hex content_key) (encode_hex content_value))
                          (take (Suc n) (web3_links self)))"
    by (intro push_history_raise) simp_all
next
  let ?at = "\<lambda>i. tr @ push_print (encode_hex content_key) (encode_hex content_value)
                # map (store_request (encode_hex content_key) (encode_hex content_value))
                    (take i (web3_links self))"
  assume reply: "make_request (web3_links self ! n) (?at n)
            ''portal_historyStore'' [encode_hex content_key, encode_hex content_value]
              = Returns (RpcError msg)
          \<and> (\<forall>i. n < i \<and> i < length (web3_links self) \<longrightarrow>
                 link_returns (web3_links self ! i) (encode_hex content_key)
                   (encode_hex content_value) (?at i))"
  have "link_returns (web3_links self ! i) (encode_hex content_key)
          (encode_hex content_value) (?at i)"
    if "i < length (web3_links self)" for i
  proof -
    consider "i < n" | "i = n" | "n < i" by linarith
    then show ?thesis
    proof cases
      case 1
      with assms(2) show ?thesis by simp
    next
      case 2
      with reply show ?thesis by (simp add: link_returns_def)
    next
      case 3
      with reply that show ?thesis by simp
    qed
  qed
  then show "push_history self content_key content_value tr
                = (Inr (), self,
                   tr @ push_print (encode_hex content_key) (encode_hex content_value)
                      # map (store_request (encode_hex content_key) (encode_hex content_value))
                          (web3_links self))"
    by (intro push_history_all_return) simp
qed

theorem push_history_raise_ends_fan_out_witness:
  "push_history (PortalInserter [node_ok 7, node_ok 8, node_down 9, node_ok 10]) [3] [4] []
     = (Inl (ProviderException ''ConnectionError''),
        PortalInserter [node_ok 7, node_ok 8, node_down 9, node_ok 10],
        [push_print ''0x03'' ''0x04'',
         MakeRequest 7 ''portal_historyStore'' [''0x03'', ''0x04''],
         MakeRequest 8 ''portal_historyStore'' [''0x03'', ''0x04''],
         MakeRequest 9 ''portal_historyStore'' [''0x03'', ''0x04'']])
   \<and> push_history (PortalInserter [node_ok 7, node_ok 8, node_rejecting 9, node_ok 10]) [3] [4] []
     = (Inr (),
        PortalInserter [node_ok 7, node_ok 8, node_rejecting 9, node_ok 10],
        [push_print ''0x03'' ''0x04'',
         MakeRequest 7 ''portal_historyStore'' [''0x03'', ''0x04''],
         MakeRequest 8 ''portal_historyStore'' [''0x03'', ''0x04''],
         MakeRequest 9 ''portal_historyStore'' [''0x03'', ''0x04''],
         MakeRequest 10 ''portal_historyStore'' [''0x03'', ''0x04'']])"
proof -
  let ?down = "PortalInserter [node_ok 7, node_ok 8, node_down 9, node_ok 10]"
  let ?rejecting = "PortalInserter [node_ok 7, node_ok 8, node_rejecting 9, node_ok 10]"
  have "push_history ?down [3] [4] []
     = (Inl (ProviderException ''ConnectionError''), ?down,
        [] @ push_print (encode_hex [3]) (encode_hex [4])
           # map (store_request (encode_hex [3]) (encode_hex [4]))
               (take (Suc 2) (web3_links ?down)))"
    using push_history_raise_ends_fan_out
            [of 2 ?down "[3]" "[4]" "[]" "''ConnectionError''" "''''"]
    by (simp add: node_ok_def node_down_def node_rejecting_def PortalInserter_def link_returns_def less_Suc_eq nth_Cons')
  moreover have "push_history ?rejecting [3] [4] []
     = (Inr (), ?rejecting,
        [] @ push_print (encode_hex [3]) (encode_hex [4])
           # map (store_request (encode_hex [3]) (encode_hex [4])) (web3_links ?rejecting))"
    using push_history_raise_ends_fan_out
            [of 2 ?rejecting "[3]" "[4]" "[]" "''''" "''content rejected''"]
    by (simp add: node_ok_def node_down_def node_rejecting_def PortalInserter_def link_returns_def less_Suc_eq nth_Cons')
  ultimately show ?thesis
    by (simp add: node_ok_def node_down_def node_rejecting_def PortalInserter_def hex_defs store_request_def)
qed

text \<open>
  The claim as the spec words it fails on a node that cannot be reached: of three links
  with the second one down, the third is never sent the request, and the call raises.
\<close>

theorem push_history_unreachable_node_counterexample:
  "push_history (PortalInserter [node_ok 0, node_down 1, node_ok 2]) [1] [2] []
     = (Inl (ProviderException ''ConnectionError''),
        PortalInserter [node_ok 0, node_down 1, node_ok 2],
        [push_print ''0x01'' ''0x02'',
         MakeRequest 0 ''portal_historyStore'' [''0x01'', ''0x02''],
         MakeRequest 1 ''portal_historyStore'' [''0x01'', ''0x02'']])
   \<and> MakeRequest 2 ''portal_historyStore'' [''0x01'', ''0x02'']
       \<notin> set (snd (snd (push_history (PortalInserter [node_ok 0, node_down 1, node_ok 2])
                              [1] [2] [])))"
  by (simp add: push_history_def Let_def node_ok_def node_down_def PortalInserter_def hex_defs store_request_def push_print_def)

section \<open>Headers\<close>

lemma hdr_hash_is_keccak_of_rlp:
  "(hdr_hash lib header = digest) = (keccak lib (rlp_encode lib header) = digest)"
  by (simp add: hdr_hash_def)

lemma block_fields_to_content_cases:
  "block_fields_to_content lib b cid =
     (case block_fields_to_header lib b of
        Raises x \<Rightarrow> Inl (LibraryException x)
      | Returns h \<Rightarrow>
          if keccak lib (rlp_encode lib h) \<noteq> hash b
          then Inl (ValidationError ''Could not correctly encode header fields'')
          else (case header_content_key lib (hash b) cid of
                  Raises x \<Rightarrow> Inl (LibraryException x)
                | Returns k \<Rightarrow> Inr (k, rlp_encode lib h)))"
  by (simp add: block_fields_to_content_def Let_def hdr_hash_def split: outcome.splits)

lemma block_fields_to_content_returned:
  assumes "block_fields_to_content lib b cid = Inr (k, v)"
  shows "\<exists>h. block_fields_to_header lib b = Returns h
           \<and> keccak lib (rlp_encode lib h) = hash b
           \<and> header_content_key lib (hash b) cid = Returns k
           \<and> v = rlp_encode lib h"
  using assms
  by (auto simp: block_fields_to_content_cases split: outcome.splits if_splits)

lemma propagate_header_not_fetched:
  "get_block w3 tr hh False = Raises x \<Longrightarrow>
   propagate_header lib w3 inserter cid hh tr
     = (Inl (ProviderException x), inserter, tr @ [GetBlock hh False])"
  by (simp add: propagate_header_def)

lemma propagate_header_invalid:
  "get_block w3 tr hh False = Returns b \<Longrightarrow> block_fields_to_content lib b cid = Inl e \<Longrightarrow>
   propagate_header lib w3 inserter cid hh tr = (Inl e, inserter, tr @ [GetBlock hh False])"
  by (simp add: propagate_header_def)

lemma propagate_header_valid:
  assumes "get_block w3 tr hh False = Returns b"
    and "block_fields_to_content lib b cid = Inr (k, v)"
  shows "\<exists>n r. n \<le> length (web3_links inserter)
      \<and> propagate_header lib w3 inserter cid hh tr
          = (r, inserter,
             tr @ GetBlock hh False # push_print (encode_hex k) (encode_hex v)
                # map (store_request (encode_hex k) (encode_hex v))
                    (take n (web3_links inserter)))
      \<and> (r = Inr b \<or> (\<exists>x. r = Inl (ProviderException x)))
      \<and> (r = Inr b \<longrightarrow> n = length (web3_links inserter))"
proof -
  from push_history_prefix [of inserter k v "tr @ [GetBlock hh False]"]
  obtain n r where n: "n \<le> length (web3_links inserter)"
    and run: "push_history inserter k v (tr @ [GetBlock hh False])
          = (r, inserter,
             (tr @ [GetBlock hh False]) @ push_print (encode_hex k) (encode_hex v)
                # map (store_request (encode_hex k) (encode_hex v))
                    (take n (web3_links inserter)))"
    and r: "r = Inr () \<or> (\<exists>x. r = Inl (ProviderException x))"
    and full: "r = Inr () \<longrightarrow> n = length (web3_links inserter)"
    by blast
  from r show ?thesis
  proof
    assume "r = Inr ()"
    with assms run n full show ?thesis
      by (intro exI [of _ n] exI [of _ "Inr b"]) (simp add: propagate_header_def)
  next
    assume "\<exists>x. r = Inl (ProviderException x)"
    then obtain x where "r = Inl (ProviderException x)" ..
    with assms run n show ?thesis
      by (intro exI [of _ n] exI [of _ "Inl (ProviderException x)"])
         (simp add: propagate_header_def)
  qed
qed

lemma handle_new_header_header_failed:
  "propagate_header lib w3 inserter cid hh tr = (Inl e, inserter1, tr1) \<Longrightarrow>
   handle_new_header lib w3 inserter hh cid tr = (Inl e, inserter1, tr1)"
  by (simp add: handle_new_header_def)

lemma handle_new_header_continues:
  "propagate_header lib w3 inserter cid hh tr = (Inr b, inserter1, tr1) \<Longrightarrow>
   handle_new_header lib w3 inserter hh cid tr = propagate_receipts lib w3 inserter1 cid b tr1"
  by (simp add: handle_new_header_def)

text \<open>
  Claim C10, as the code has it. \<^verbatim>\<open>block_fields_to_content\<close> makes two checks against the
  asserted hash, first of the keccak of the encoded header and then of the header
  object's own hash, and returns a key and a value only when both pass. The header
  object's own hash is the keccak of its encoding, so the second check passes whenever
  the first does: the function never raises the second \<^verbatim>\<open>ValidationError\<close>, and once the
  header object is built it raises \<^verbatim>\<open>ValidationError\<close> exactly when the keccak of the
  encoded header differs from the asserted hash. With both checks passed it returns the
  header key of the asserted hash and the encoded header, when the key can be built.
\<close>

theorem block_fields_to_content_checks:
  "(block_fields_to_content lib b chain_id = Inr (k, v) \<longrightarrow>
      (\<exists>h. block_fields_to_header lib b = Returns h
          \<and> keccak lib (rlp_encode lib h) = hash b
          \<and> hdr_hash lib h = hash b
          \<and> header_content_key lib (hash b) chain_id = Returns k
          \<and> v = rlp_encode lib h))
   \<and> block_fields_to_content lib b chain_id
       \<noteq> Inl (ValidationError ''py-evm generated a different hash than we did manually'')
   \<and> (block_fields_to_header lib b = Returns h \<longrightarrow>
        (hdr_hash lib h = hash b) = (keccak lib (rlp_encode lib h) = hash b)
      \<and> ((\<exists>m. block_fields_to_content lib b chain_id = Inl (ValidationError m))
           = (keccak lib (rlp_encode lib h) \<noteq> hash b))
      \<and> (keccak lib (rlp_encode lib h) \<noteq> hash b \<longrightarrow>
            block_fields_to_content lib b chain_id
              = Inl (ValidationError ''Could not correctly encode header fields''))
      \<and> (keccak lib (rlp_encode lib h) = hash b
            \<and> header_content_key lib (hash b) chain_id = Returns k \<longrightarrow>
            block_fields_to_content lib b chain_id = Inr (k, rlp_encode lib h)))"
proof (intro conjI impI)
  assume "block_fields_to_content lib b chain_id = Inr (k, v)"
  from block_fields_to_content_returned [OF this]
  show "\<exists>h. block_fields_to_header lib b = Returns h
          \<and> keccak lib (rlp_encode lib h) = hash b
          \<and> hdr_hash lib h = hash b
          \<and> header_content_key lib (hash b) chain_id = Returns k
          \<and> v = rlp_encode lib h"
    by (auto simp: hdr_hash_def)
next
  show "block_fields_to_content lib b chain_id
       \<noteq> Inl (ValidationError ''py-evm generated a different hash than we did manually'')"
    by (simp add: block_fields_to_content_cases split: outcome.splits)
next
  assume built: "block_fields_to_header lib b = Returns h"
  show "(hdr_hash lib h = hash b) = (keccak lib (rlp_encode lib h) = hash b)"
    by (rule hdr_hash_is_keccak_of_rlp)
  from built
  show "(\<exists>m. block_fields_to_content lib b chain_id = Inl (ValidationError m))
           = (keccak lib (rlp_encode lib h) \<noteq> hash b)"
    by (simp add: block_fields_to_content_cases split: outcome.splits)
  from built
  show "block_fields_to_content lib b chain_id
          = Inl (ValidationError ''Could not correctly encode header fields'')"
    if "keccak lib (rlp_encode lib h) \<noteq> hash b"
    using that by (simp add: block_fields_to_content_cases)
  from built
  show "block_fields_to_content lib b chain_id = Inr (k, rlp_encode lib h)"
    if "keccak lib (rlp_encode lib h) = hash b
            \<and> header_content_key lib (hash b) chain_id = Returns k"
    using that by (simp add: block_fields_to_content_cases)
qed

theorem block_fields_to_content_checks_witness:
  "block_fields_to_header toy_library toy_block = Returns [3, 7]
   \<and> keccak toy_library (rlp_encode toy_library [3, 7]) = hash toy_block
   \<and> header_content_key toy_library (hash toy_block) 1 = Returns [0, 1, 0, 10]
   \<and> block_fields_to_content toy_library toy_block 1 = Inr ([0, 1, 0, 10], [3, 7])
   \<and> hdr_hash toy_library [3, 7] = hash toy_block
   \<and> block_fields_to_header toy_library toy_block_wrong_hash = Returns [3, 7]
   \<and> keccak toy_library (rlp_encode toy_library [3, 7]) \<noteq> hash toy_block_wrong_hash
   \<and> block_fields_to_content toy_library toy_block_wrong_hash 1
       = Inl (ValidationError ''Could not correctly encode header fields'')"
proof -
  have built: "block_fields_to_header toy_library toy_block = Returns [3, 7]"
    "block_fields_to_header toy_library toy_block_wrong_hash = Returns [3, 7]"
    by (simp_all add: toy_library_def toy_block_def toy_block_wrong_hash_def)
  have same: "keccak toy_library (rlp_encode toy_library [3, 7]) = hash toy_block
     \<and> header_content_key toy_library (hash toy_block) 1 = Returns [0, 1, 0, 10]"
    by (simp add: toy_library_def toy_block_def toy_content_key_def)
  have other: "keccak toy_library (rlp_encode toy_library [3, 7]) \<noteq> hash toy_block_wrong_hash"
    by (simp add: toy_library_def toy_block_def toy_block_wrong_hash_def)
  from block_fields_to_content_checks
         [of toy_library toy_block 1 "[0, 1, 0, 10]" "[3, 7]" "[3, 7]"] built(1) same
  have "block_fields_to_content toy_library toy_block 1
          = Inr ([0, 1, 0, 10], rlp_encode toy_library [3, 7])"
    and "hdr_hash toy_library [3, 7] = hash toy_block"
    by blast+
  moreover
  from block_fields_to_content_checks
         [of toy_library toy_block_wrong_hash 1 "[]" "[]" "[3, 7]"] built(2) other
  have "block_fields_to_content toy_library toy_block_wrong_hash 1
          = Inl (ValidationError ''Could not correctly encode header fields'')"
    by blast
  ultimately show ?thesis
    using built same other by (simp add: toy_library_def)
qed

text \<open>
  The claim as the spec words it says that the function can raise \<^verbatim>\<open>ValidationError\<close> while
  the keccak of the encoded header equals the asserted hash. No library, block and chain
  id make it do so.
\<close>

theorem block_fields_to_content_second_check_counterexample:
  "\<not> (\<exists>lib b chain_id h m.
         block_fields_to_header lib b = Returns h
       \<and> keccak lib (rlp_encode lib h) = hash b
       \<and> block_fields_to_content lib b chain_id = Inl (ValidationError m))"
  by (auto simp: block_fields_to_content_cases split: outcome.splits)

text \<open>
  Claim C1. When the keccak of the encoded header differs from the hash that the provider
  asserts, \<^verbatim>\<open>block_fields_to_content\<close> raises \<^verbatim>\<open>ValidationError\<close>, and \<^verbatim>\<open>propagate_header\<close>
  and with it \<^verbatim>\<open>handle_new_header\<close> end with that error right after fetching the block: no
  call of \<^verbatim>\<open>push_history\<close> and no store request is made. Whenever \<^verbatim>\<open>propagate_header\<close> does
  call \<^verbatim>\<open>push_history\<close> or sends a store request, the block was fetched, the keccak of its
  encoded header equals its asserted hash, and the one call made is for the header key
  and the encoded header.
\<close>

theorem header_pushed_only_if_hash_matches:
  "(get_block w3 tr header_hash False = Returns b
      \<and> block_fields_to_header lib b = Returns h
      \<and> keccak lib (rlp_encode lib h) \<noteq> hash b \<longrightarrow>
        block_fields_to_content lib b chain_id
          = Inl (ValidationError ''Could not correctly encode header fields'')
      \<and> propagate_header lib w3 inserter chain_id header_hash tr
          = (Inl (ValidationError ''Could not correctly encode header fields''), inserter,
             tr @ [GetBlock header_hash False])
      \<and> handle_new_header lib w3 inserter header_hash chain_id tr
          = (Inl (ValidationError ''Could not correctly encode header fields''), inserter,
             tr @ [GetBlock header_hash False])
      \<and> push_calls (tr @ [GetBlock header_hash False]) = push_calls tr
      \<and> store_requests (tr @ [GetBlock header_hash False]) = store_requests tr)
   \<and> (push_calls (snd (snd (propagate_header lib w3 inserter chain_id header_hash tr)))
          \<noteq> push_calls tr
      \<or> store_requests (snd (snd (propagate_header lib w3 inserter chain_id header_hash tr)))
          \<noteq> store_requests tr \<longrightarrow>
        (\<exists>b h k. get_block w3 tr header_hash False = Returns b
           \<and> block_fields_to_header lib b = Returns h
           \<and> keccak lib (rlp_encode lib h) = hash b
           \<and> header_content_key lib (hash b) chain_id = Returns k
           \<and> push_calls (snd (snd (propagate_header lib w3 inserter chain_id header_hash tr)))
               = push_calls tr @ [(encode_hex k, encode_hex (rlp_encode lib h))]))"
proof (intro conjI impI)
  assume bad: "get_block w3 tr header_hash False = Returns b
      \<and> block_fields_to_header lib b = Returns h
      \<and> keccak lib (rlp_encode lib h) \<noteq> hash b"
  then show invalid: "block_fields_to_content lib b chain_id
          = Inl (ValidationError ''Could not correctly encode header fields'')"
    by (simp add: block_fields_to_content_cases)
  with bad show stopped: "propagate_header lib w3 inserter chain_id header_hash tr
          = (Inl (ValidationError ''Could not correctly encode header fields''), inserter,
             tr @ [GetBlock header_hash False])"
    by (simp add: propagate_header_invalid)
  then show "handle_new_header lib w3 inserter header_hash chain_id tr
          = (Inl (ValidationError ''Could not correctly encode header fields''), inserter,
             tr @ [GetBlock header_hash False])"
    by (rule handle_new_header_header_failed)
  show "push_calls (tr @ [GetBlock header_hash False]) = push_calls tr"
    by (simp add: push_calls_append push_calls_Cons push_calls_Nil)
  show "store_requests (tr @ [GetBlock header_hash False]) = store_requests tr"
    by (simp add: store_requests_def)
next
  let ?run = "propagate_header lib w3 inserter chain_id header_hash tr"
  assume pushed: "push_calls (snd (snd ?run)) \<noteq> push_calls tr
      \<or> store_requests (snd (snd ?run)) \<noteq> store_requests tr"
  have quiet: "push_calls (tr @ [GetBlock header_hash False]) = push_calls tr"
    "store_requests (tr @ [GetBlock header_hash False]) = store_requests tr"
    by (simp_all add: push_calls_append push_calls_Cons push_calls_Nil store_requests_def)
  show "\<exists>b h k. get_block w3 tr header_hash False = Returns b
           \<and> block_fields_to_header lib b = Returns h
           \<and> keccak lib (rlp_encode lib h) = hash b
           \<and> header_content_key lib (hash b) chain_id = Returns k
           \<and> push_calls (snd (snd ?run))
               = push_calls tr @ [(encode_hex k, encode_hex (rlp_encode lib h))]"
  proof (cases "get_block w3 tr header_hash False")
    case (Raises x)
    from propagate_header_not_fetched [OF this, of lib inserter chain_id] pushed quiet
    show ?thesis by simp
  next
    case (Returns b)
    show ?thesis
    proof (cases "block_fields_to_content lib b chain_id")
      case (Inl e)
      from propagate_header_invalid [OF Returns this, of inserter] pushed quiet
      show ?thesis by simp
    next
      case (Inr kv)
      obtain k v where kv: "kv = (k, v)" by (cases kv)
      with Inr have content: "block_fields_to_content lib b chain_id = Inr (k, v)" by simp
      from block_fields_to_content_returned [OF content] obtain h where
        checks: "block_fields_to_header lib b = Returns h"
          "keccak lib (rlp_encode lib h) = hash b"
          "header_content_key lib (hash b) chain_id = Returns k"
          "v = rlp_encode lib h"
        by blast
      from propagate_header_valid [OF Returns content, of inserter] obtain n r where
        "?run = (r, inserter,
             tr @ GetBlock header_hash False # push_print (encode_hex k) (encode_hex v)
                # map (store_request (encode_hex k) (encode_hex v))
                    (take n (web3_links inserter)))"
        by blast
      then have "push_calls (snd (snd ?run)) = push_calls tr @ [(encode_hex k, encode_hex v)]"
        by (simp add: push_calls_append push_calls_Cons push_calls_Nil
              push_call_of_push_print push_calls_store_requests)
      with Returns checks show ?thesis by auto
    qed
  qed
qed

theorem header_pushed_only_if_hash_matches_witness:
  "get_block (toy_web3 toy_block_wrong_hash id) [] [11] False = Returns toy_block_wrong_hash
   \<and> block_fields_to_header toy_library toy_block_wrong_hash = Returns [3, 7]
   \<and> keccak toy_library (rlp_encode toy_library [3, 7]) \<noteq> hash toy_block_wrong_hash
   \<and> propagate_header toy_library (toy_web3 toy_block_wrong_hash id)
         (PortalInserter [node_ok 0, node_ok 1]) 1 [11] []
       = (Inl (ValidationError ''Could not correctly encode header fields''),
          PortalInserter [node_ok 0, node_ok 1], [GetBlock [11] False])
   \<and> handle_new_header toy_library (toy_web3 toy_block_wrong_hash id)
         (PortalInserter [node_ok 0, node_ok 1]) [11] 1 []
       = (Inl (ValidationError ''Could not correctly encode header fields''),
          PortalInserter [node_ok 0, node_ok 1], [GetBlock [11] False])
   \<and> push_calls (snd (snd (propagate_header toy_library (toy_web3 toy_block id)
                               (PortalInserter [node_ok 0, node_ok 1]) 1 [10] [])))
       = [(''0x0001000a'', ''0x0307'')]
   \<and> keccak toy_library (rlp_encode toy_library [3, 7]) = hash toy_block"
proof -
  let ?ins = "PortalInserter [node_ok 0, node_ok 1]"
  have bad: "get_block (toy_web3 toy_block_wrong_hash id) [] [11] False
               = Returns toy_block_wrong_hash
     \<and> block_fields_to_header toy_library toy_block_wrong_hash = Returns [3, 7]
     \<and> keccak toy_library (rlp_encode toy_library [3, 7]) \<noteq> hash toy_block_wrong_hash"
    by (simp add: toy_library_def toy_block_def toy_block_wrong_hash_def toy_web3_def)
  with header_pushed_only_if_hash_matches
         [of "toy_web3 toy_block_wrong_hash id" "[]" "[11]" toy_block_wrong_hash toy_library
             "[3, 7]" 1 ?ins]
  have stopped: "propagate_header toy_library (toy_web3 toy_block_wrong_hash id) ?ins 1 [11] []
       = (Inl (ValidationError ''Could not correctly encode header fields''), ?ins,
          [] @ [GetBlock [11] False])"
    "handle_new_header toy_library (toy_web3 toy_block_wrong_hash id) ?ins [11] 1 []
       = (Inl (ValidationError ''Could not correctly encode header fields''), ?ins,
          [] @ [GetBlock [11] False])"
    by blast+
  let ?run = "propagate_header toy_library (toy_web3 toy_block id) ?ins 1 [10] []"
  have run: "push_calls (snd (snd ?run)) = [(''0x0001000a'', ''0x0307'')]"
    by (simp add: propagate_header_def block_fields_to_content_def push_history_def Let_def
          hdr_hash_def toy_library_def toy_block_def toy_web3_def toy_content_key_def
          node_ok_def PortalInserter_def hex_defs push_print_def store_request_def
          push_calls_Cons push_calls_Nil)
  then have "push_calls (snd (snd ?run)) \<noteq> push_calls []"
    by (simp add: push_calls_Nil)
  with header_pushed_only_if_hash_matches
         [of "toy_web3 toy_block id" "[]" "[10]" toy_block toy_library "[3, 7]" 1 ?ins]
  obtain b h where "get_block (toy_web3 toy_block id) [] [10] False = Returns b"
    and "block_fields_to_header toy_library b = Returns h"
    and "keccak toy_library (rlp_encode toy_library h) = hash b"
    by blast
  then have "keccak toy_library (rlp_encode toy_library [3, 7]) = hash toy_block"
    by (auto simp: toy_web3_def toy_block_def toy_library_def split: if_splits)
  with bad stopped run show ?thesis by simp
qed

section \<open>Receipts\<close>

lemma encode_receipts_content_cases:
  "encode_receipts_content lib rs cid hh n root =
     (case convert_receipts lib rs n of
        Inl e \<Rightarrow> Inl e
      | Inr cs \<Rightarrow>
          if fst (make_trie_root_and_nodes lib cs) \<noteq> root
          then Inl (ValidationError
                      (''Could not correctly encode receipts for header '' @ hexbytes_hex hh))
          else (case receipt_content_key lib hh cid of
                  Raises x \<Rightarrow> Inl (LibraryException x)
                | Returns k \<Rightarrow>
                    (case receipt_content_value lib cs of
                       Raises x \<Rightarrow> Inl (LibraryException x)
                     | Returns v \<Rightarrow> Inr (k, v))))"
  by (simp add: encode_receipts_content_def Let_def split: prod.splits sum.splits)

lemma encode_receipts_content_returned:
  assumes "encode_receipts_content lib rs cid hh n root = Inr (k, v)"
  shows "\<exists>cs. convert_receipts lib rs n = Inr cs
           \<and> fst (make_trie_root_and_nodes lib cs) = root
           \<and> receipt_content_key lib hh cid = Returns k
           \<and> receipt_content_value lib cs = Returns v"
  using assms
  by (auto simp: encode_receipts_content_cases split: sum.splits outcome.splits if_splits)

lemma propagate_header_returned:
  assumes "propagate_header lib w3 inserter cid hh tr = (Inr b, inserter1, tr1)"
  shows "\<exists>h k. get_block w3 tr hh False = Returns b
    \<and> block_fields_to_header lib b = Returns h
    \<and> keccak lib (rlp_encode lib h) = hash b
    \<and> header_content_key lib (hash b) cid = Returns k
    \<and> inserter1 = inserter
    \<and> tr1 = tr @ GetBlock hh False
               # push_print (encode_hex k) (encode_hex (rlp_encode lib h))
               # map (store_request (encode_hex k) (encode_hex (rlp_encode lib h)))
                   (web3_links inserter)"
proof (cases "get_block w3 tr hh False")
  case (Raises x)
  from propagate_header_not_fetched [OF this, of lib inserter cid] assms
  show ?thesis by simp
next
  case (Returns b')
  show ?thesis
  proof (cases "block_fields_to_content lib b' cid")
    case (Inl e)
    from propagate_header_invalid [OF Returns this, of inserter] assms
    show ?thesis by simp
  next
    case (Inr kv)
    obtain k v where "kv = (k, v)" by (cases kv)
    with Inr have content: "block_fields_to_content lib b' cid = Inr (k, v)" by simp
    from block_fields_to_content_returned [OF content] obtain h where
      checks: "block_fields_to_header lib b' = Returns h"
        "keccak lib (rlp_encode lib h) = hash b'"
        "header_content_key lib (hash b') cid = Returns k"
        "v = rlp_encode lib h"
      by blast
    from propagate_header_valid [OF Returns content, of inserter] obtain n r where
      run: "propagate_header lib w3 inserter cid hh tr
          = (r, inserter,
             tr @ GetBlock hh False # push_print (encode_hex k) (encode_hex v)
                # map (store_request (encode_hex k) (encode_hex v))
                    (take n (web3_links inserter)))"
      and full: "r = Inr b' \<longrightarrow> n = length (web3_links inserter)"
      and r: "r = Inr b' \<or> (\<exists>x. r = Inl (ProviderException x))"
      by blast
    from run assms r have "r = Inr b'" "b' = b" by auto
    with run assms full Returns checks show ?thesis
      by (intro exI [of _ h] exI [of _ k]) simp
  qed
qed

lemma collect_receipts_returned:
  assumes "collect_receipts w3 txns tr = (Inr rs, tr2)"
  shows "tr2 = tr @ map wait_event txns"
proof -
  from collect_receipts_prefix [of txns w3 tr] obtain n where
    "snd (collect_receipts w3 txns tr) = tr @ map wait_event (take n txns)"
    "(\<exists>rs. fst (collect_receipts w3 txns tr) = Inr rs) \<longrightarrow> n = length txns"
    by blast
  with assms show ?thesis by simp
qed

lemma propagate_receipts_not_collected:
  "collect_receipts w3 (transactions b) (tr @ [Print [''Collecting receipts to propagate...'']])
     = (Inl e, tr2) \<Longrightarrow>
   propagate_receipts lib w3 inserter cid b tr = (Inl e, inserter, tr2)"
  by (simp add: propagate_receipts_def)

lemma propagate_receipts_invalid:
  "collect_receipts w3 (transactions b) (tr @ [Print [''Collecting receipts to propagate...'']])
     = (Inr rs, tr2) \<Longrightarrow>
   encode_receipts_content lib rs cid (hash b) (number b) (receiptsRoot b) = Inl e \<Longrightarrow>
   propagate_receipts lib w3 inserter cid b tr
     = (Inl e, inserter, tr2 @ [Print [''Collected receipts'']])"
  by (simp add: propagate_receipts_def)

lemma propagate_receipts_valid:
  "collect_receipts w3 (transactions b) (tr @ [Print [''Collecting receipts to propagate...'']])
     = (Inr rs, tr2) \<Longrightarrow>
   encode_receipts_content lib rs cid (hash b) (number b) (receiptsRoot b) = Inr (k, v) \<Longrightarrow>
   propagate_receipts lib w3 inserter cid b tr
     = push_history inserter k v (tr2 @ [Print [''Collected receipts'']])"
  by (simp add: propagate_receipts_def)

text \<open>Every way a run of \<^verbatim>\<open>propagate_receipts\<close> can go, with the trace it leaves.\<close>

lemma propagate_receipts_shape:
  "(\<exists>n x. n \<le> length (transactions b)
       \<and> propagate_receipts lib w3 inserter cid b tr
           = (Inl (ProviderException x), inserter,
              tr @ Print [''Collecting receipts to propagate...'']
                 # map wait_event (take n (transactions b))))
   \<or> (\<exists>rs. collect_receipts w3 (transactions b)
               (tr @ [Print [''Collecting receipts to propagate...'']])
             = (Inr rs, tr @ Print [''Collecting receipts to propagate...'']
                           # map wait_event (transactions b))
        \<and> ((\<exists>e. encode_receipts_content lib rs cid (hash b) (number b) (receiptsRoot b) = Inl e
               \<and> propagate_receipts lib w3 inserter cid b tr
                   = (Inl e, inserter,
                      tr @ Print [''Collecting receipts to propagate...'']
                         # map wait_event (transactions b) @ [Print [''Collected receipts'']]))
           \<or> (\<exists>k v n r.
                 encode_receipts_content lib rs cid (hash b) (number b) (receiptsRoot b)
                   = Inr (k, v)
               \<and> n \<le> length (web3_links inserter)
               \<and> propagate_receipts lib w3 inserter cid b tr
                   = (r, inserter,
                      tr @ Print [''Collecting receipts to propagate...'']
                         # map wait_event (transactions b)
                         @ Print [''Collected receipts'']
                         # push_print (encode_hex k) (encode_hex v)
                         # map (store_request (encode_hex k) (encode_hex v))
                             (take n (web3_links inserter)))
               \<and> (r = Inr () \<or> (\<exists>x. r = Inl (ProviderException x)))
               \<and> (r = Inr () \<longrightarrow> n = length (web3_links inserter)))))"
proof -
  let ?c = "Print [''Collecting receipts to propagate...'']"
  let ?d = "Print [''Collected receipts'']"
  let ?col = "collect_receipts w3 (transactions b) (tr @ [?c])"
  from collect_receipts_prefix [of "transactions b" w3 "tr @ [?c]"] obtain n where
    n: "n \<le> length (transactions b)"
    and tr2: "snd ?col = (tr @ [?c]) @ map wait_event (take n (transactions b))"
    and res: "(\<exists>rs. fst ?col = Inr rs) \<or> (\<exists>x. fst ?col = Inl (ProviderException x))"
    and full: "(\<exists>rs. fst ?col = Inr rs) \<longrightarrow> n = length (transactions b)"
    by blast
  from res show ?thesis
  proof
    assume "\<exists>x. fst ?col = Inl (ProviderException x)"
    then obtain x where "fst ?col = Inl (ProviderException x)" ..
    with tr2 have "?col = (Inl (ProviderException x),
        (tr @ [?c]) @ map wait_event (take n (transactions b)))"
      by (cases ?col) simp
    from propagate_receipts_not_collected [OF this, of lib inserter cid] n
    show ?thesis by auto
  next
    assume "\<exists>rs. fst ?col = Inr rs"
    then obtain rs where "fst ?col = Inr rs" ..
    with tr2 full have col: "?col = (Inr rs, tr @ ?c # map wait_event (transactions b))"
      by (cases ?col) simp
    show ?thesis
    proof (cases "encode_receipts_content lib rs cid (hash b) (number b) (receiptsRoot b)")
      case (Inl e)
      from propagate_receipts_invalid [OF col Inl, of inserter] col Inl
      show ?thesis by auto
    next
      case (Inr kv)
      obtain k v where "kv = (k, v)" by (cases kv)
      with Inr
      have valid: "encode_receipts_content lib rs cid (hash b) (number b) (receiptsRoot b)
                     = Inr (k, v)"
        by simp
      let ?tr3 = "(tr @ ?c # map wait_event (transactions b)) @ [?d]"
      from push_history_prefix [of inserter k v ?tr3] obtain m r where
        m: "m \<le> length (web3_links inserter)"
        and push: "push_history inserter k v ?tr3
              = (r, inserter,
                 ?tr3 @ push_print (encode_hex k) (encode_hex v)
                      # map (store_request (encode_hex k) (encode_hex v))
                          (take m (web3_links inserter)))"
        and r: "r = Inr () \<or> (\<exists>x. r = Inl (ProviderException x))"
        and all: "r = Inr () \<longrightarrow> m = length (web3_links inserter)"
        by blast
      from propagate_receipts_valid [OF col valid, of inserter] push
      have "propagate_receipts lib w3 inserter cid b tr
              = (r, inserter,
                 tr @ ?c # map wait_event (transactions b) @ ?d
                    # push_print (encode_hex k) (encode_hex v)
                    # map (store_request (encode_hex k) (encode_hex v))
                        (take m (web3_links inserter)))"
        by simp
      with col valid m r all show ?thesis by blast
    qed
  qed
qed

lemma wait_event_eq: "wait_event = (\<lambda>h. WaitForTransactionReceipt h 2)"
  by (rule ext) (simp add: wait_event_def)

lemma list_all_push_events:
  "list_all is_push_event (push_print k v # map (store_request k v) ls)"
  by (simp add: list_all_iff is_push_event_def push_print_def store_request_def)

lemma quiet_prints:
  "push_calls (tr @ [Print [''Collected receipts'']]) = push_calls tr"
  "push_calls (tr @ [Print [''Collecting receipts to propagate...'']]) = push_calls tr"
  "store_requests (tr @ [Print [''Collected receipts'']]) = store_requests tr"
  "store_requests (tr @ [Print [''Collecting receipts to propagate...'']]) = store_requests tr"
  by (simp_all add: push_calls_append push_calls_Cons push_calls_Nil store_requests_def)

lemma quiet_waits:
  "push_calls (tr @ map wait_event hs) = push_calls tr"
  "store_requests (tr @ map wait_event hs) = store_requests tr"
  by (simp_all add: push_calls_append push_calls_waits store_requests_append
        store_requests_waits)

text \<open>
  Claim C2. After a header push that succeeded and with the receipts collected and
  converted: when the trie root of the converted receipts differs from the header's
  \<^verbatim>\<open>receiptsRoot\<close>, \<^verbatim>\<open>encode_receipts_content\<close> raises \<^verbatim>\<open>ValidationError\<close> and
  \<^verbatim>\<open>handle_new_header\<close> ends with it; the only call of \<^verbatim>\<open>push_history\<close> in the run is the one
  for the header, and no store request is sent after those of the header push. Whenever
  \<^verbatim>\<open>propagate_receipts\<close> does call \<^verbatim>\<open>push_history\<close> or sends a store request, the receipts
  were collected, the trie root of their conversions equals \<^verbatim>\<open>receiptsRoot\<close>, and the one
  call made is for the receipts key and the encoded receipts.
\<close>

theorem receipts_pushed_only_if_root_matches:
  "(propagate_header lib w3 inserter chain_id header_hash tr = (Inr b, inserter1, tr1)
      \<and> collect_receipts w3 (transactions b)
            (tr1 @ [Print [''Collecting receipts to propagate...'']]) = (Inr rs, tr2)
      \<and> convert_receipts lib rs (number b) = Inr cs
      \<and> fst (make_trie_root_and_nodes lib cs) \<noteq> receiptsRoot b
      \<longrightarrow>
        encode_receipts_content lib rs chain_id (hash b) (number b) (receiptsRoot b)
          = Inl (ValidationError
                   (''Could not correctly encode receipts for header ''
                      @ hexbytes_hex (hash b)))
      \<and> handle_new_header lib w3 inserter header_hash chain_id tr
          = (Inl (ValidationError
                    (''Could not correctly encode receipts for header ''
                       @ hexbytes_hex (hash b))),
             inserter, tr2 @ [Print [''Collected receipts'']])
      \<and> (\<exists>h k. block_fields_to_header lib b = Returns h
             \<and> header_content_key lib (hash b) chain_id = Returns k
             \<and> push_calls (tr2 @ [Print [''Collected receipts'']])
                 = push_calls tr @ [(encode_hex k, encode_hex (rlp_encode lib h))])
      \<and> store_requests (tr2 @ [Print [''Collected receipts'']]) = store_requests tr1)
   \<and> (push_calls (snd (snd (propagate_receipts lib w3 inserter chain_id b tr)))
          \<noteq> push_calls tr
      \<or> store_requests (snd (snd (propagate_receipts lib w3 inserter chain_id b tr)))
          \<noteq> store_requests tr \<longrightarrow>
        (\<exists>rs cs k v.
             fst (collect_receipts w3 (transactions b)
                    (tr @ [Print [''Collecting receipts to propagate...'']])) = Inr rs
           \<and> convert_receipts lib rs (number b) = Inr cs
           \<and> fst (make_trie_root_and_nodes lib cs) = receiptsRoot b
           \<and> receipt_content_key lib (hash b) chain_id = Returns k
           \<and> receipt_content_value lib cs = Returns v
           \<and> push_calls (snd (snd (propagate_receipts lib w3 inserter chain_id b tr)))
               = push_calls tr @ [(encode_hex k, encode_hex v)]))"
proof (intro conjI impI)
  let ?c = "Print [''Collecting receipts to propagate...'']"
  let ?d = "Print [''Collected receipts'']"
  let ?msg = "''Could not correctly encode receipts for header '' @ hexbytes_hex (hash b)"
  assume run: "propagate_header lib w3 inserter chain_id header_hash tr = (Inr b, inserter1, tr1)
      \<and> collect_receipts w3 (transactions b) (tr1 @ [?c]) = (Inr rs, tr2)
      \<and> convert_receipts lib rs (number b) = Inr cs
      \<and> fst (make_trie_root_and_nodes lib cs) \<noteq> receiptsRoot b"
  then have header: "propagate_header lib w3 inserter chain_id header_hash tr
                       = (Inr b, inserter1, tr1)"
    and col: "collect_receipts w3 (transactions b) (tr1 @ [?c]) = (Inr rs, tr2)"
    by simp_all
  from run show invalid:
    "encode_receipts_content lib rs chain_id (hash b) (number b) (receiptsRoot b)
       = Inl (ValidationError ?msg)"
    by (simp add: encode_receipts_content_cases)
  from propagate_header_returned [OF header] obtain h k where
    built: "block_fields_to_header lib b = Returns h"
      "header_content_key lib (hash b) chain_id = Returns k"
    and same: "inserter1 = inserter"
    and tr1: "tr1 = tr @ GetBlock header_hash False
               # push_print (encode_hex k) (encode_hex (rlp_encode lib h))
               # map (store_request (encode_hex k) (encode_hex (rlp_encode lib h)))
                   (web3_links inserter)"
    by blast
  from collect_receipts_returned [OF col]
  have tr2: "tr2 = (tr1 @ [?c]) @ map wait_event (transactions b)" .
  from propagate_receipts_invalid [OF col invalid, of inserter] header same
  show "handle_new_header lib w3 inserter header_hash chain_id tr
          = (Inl (ValidationError ?msg), inserter, tr2 @ [?d])"
    by (simp add: handle_new_header_def)
  have "push_calls (tr2 @ [?d]) = push_calls tr1"
    unfolding tr2 by (simp only: quiet_prints quiet_waits)
  also have "\<dots> = push_calls (tr @ [GetBlock header_hash False])
                 @ [(encode_hex k, encode_hex (rlp_encode lib h))]"
    unfolding tr1 using push_calls_push [of "tr @ [GetBlock header_hash False]"] by simp
  finally have "push_calls (tr2 @ [?d])
          = push_calls tr @ [(encode_hex k, encode_hex (rlp_encode lib h))]"
    by (simp add: push_calls_append push_calls_Cons push_calls_Nil)
  with built
  show "\<exists>h k. block_fields_to_header lib b = Returns h
             \<and> header_content_key lib (hash b) chain_id = Returns k
             \<and> push_calls (tr2 @ [?d])
                 = push_calls tr @ [(encode_hex k, encode_hex (rlp_encode lib h))]"
    by blast
  show "store_requests (tr2 @ [?d]) = store_requests tr1"
    unfolding tr2 by (simp only: quiet_prints quiet_waits)
next
  let ?c = "Print [''Collecting receipts to propagate...'']"
  let ?d = "Print [''Collected receipts'']"
  let ?run = "propagate_receipts lib w3 inserter chain_id b tr"
  assume pushed: "push_calls (snd (snd ?run)) \<noteq> push_calls tr
      \<or> store_requests (snd (snd ?run)) \<noteq> store_requests tr"
  have quiet: "push_calls (tr @ ?c # map wait_event hs) = push_calls tr"
    "store_requests (tr @ ?c # map wait_event hs) = store_requests tr"
    "push_calls (tr @ ?c # map wait_event hs @ [?d]) = push_calls tr"
    "store_requests (tr @ ?c # map wait_event hs @ [?d]) = store_requests tr" for hs
    using quiet_waits [of "tr @ [?c]" hs] quiet_prints [of tr]
      quiet_prints [of "(tr @ [?c]) @ map wait_event hs"]
    by simp_all
  from propagate_receipts_shape [of b lib w3 inserter chain_id tr]
  consider (waiting) n x where
      "?run = (Inl (ProviderException x), inserter,
               tr @ ?c # map wait_event (take n (transactions b)))"
    | (invalid) e where
      "?run = (Inl e, inserter, tr @ ?c # map wait_event (transactions b) @ [?d])"
    | (valid) rs k v n r where
      "collect_receipts w3 (transactions b) (tr @ [?c])
         = (Inr rs, tr @ ?c # map wait_event (transactions b))"
      "encode_receipts_content lib rs chain_id (hash b) (number b) (receiptsRoot b)
         = Inr (k, v)"
      "?run = (r, inserter,
               tr @ ?c # map wait_event (transactions b) @ ?d
                  # push_print (encode_hex k) (encode_hex v)
                  # map (store_request (encode_hex k) (encode_hex v))
                      (take n (web3_links inserter)))"
    by blast
  then show "\<exists>rs cs k v.
             fst (collect_receipts w3 (transactions b) (tr @ [?c])) = Inr rs
           \<and> convert_receipts lib rs (number b) = Inr cs
           \<and> fst (make_trie_root_and_nodes lib cs) = receiptsRoot b
           \<and> receipt_content_key lib (hash b) chain_id = Returns k
           \<and> receipt_content_value lib cs = Returns v
           \<and> push_calls (snd (snd ?run)) = push_calls tr @ [(encode_hex k, encode_hex v)]"
  proof cases
    case waiting
    with pushed quiet show ?thesis by simp
  next
    case invalid
    with pushed quiet show ?thesis by simp
  next
    case valid
    from encode_receipts_content_returned [OF valid(2)] obtain cs where
      cs: "convert_receipts lib rs (number b) = Inr cs"
        "fst (make_trie_root_and_nodes lib cs) = receiptsRoot b"
        "receipt_content_key lib (hash b) chain_id = Returns k"
        "receipt_content_value lib cs = Returns v"
      by blast
    have "push_calls (snd (snd ?run))
            = push_calls (tr @ ?c # map wait_event (transactions b) @ [?d])
              @ [(encode_hex k, encode_hex v)]"
      using push_calls_push [of "tr @ ?c # map wait_event (transactions b) @ [?d]"
                                "encode_hex k" "encode_hex v" "take n (web3_links inserter)"]
      by (simp add: valid(3))
    with quiet have "push_calls (snd (snd ?run)) = push_calls tr @ [(encode_hex k, encode_hex v)]"
      by simp
    with valid(1) cs show ?thesis
      by (intro exI [of _ rs] exI [of _ cs] exI [of _ k] exI [of _ v]) simp
  qed
qed

lemmas run_defs = handle_new_header_def propagate_header_def propagate_receipts_def
  push_history_def block_fields_to_content_def encode_receipts_content_def Let_def
  store_request_def push_print_def wait_event_def

theorem receipts_pushed_only_if_root_matches_witness:
  "handle_new_header toy_library (toy_web3 toy_block mutated) (PortalInserter [node_ok 0])
       [10] 1 []
     = (Inl (ValidationError ''Could not correctly encode receipts for header 0x0a''),
        PortalInserter [node_ok 0],
        [GetBlock [10] False,
         push_print ''0x0001000a'' ''0x0307'',
         MakeRequest 0 ''portal_historyStore'' [''0x0001000a'', ''0x0307''],
         Print [''Collecting receipts to propagate...''],
         WaitForTransactionReceipt [1] 2, WaitForTransactionReceipt [2] 2,
         Print [''Collected receipts'']])
   \<and> convert_receipts toy_library [mutated [1], mutated [2]] (number toy_block)
       = Inr [[2], [3]]
   \<and> fst (make_trie_root_and_nodes toy_library [[2], [3]]) \<noteq> receiptsRoot toy_block
   \<and> push_calls (snd (snd (propagate_receipts toy_library (toy_web3 toy_block id)
                             (PortalInserter [node_ok 0]) 1 toy_block [])))
       = [(''0x0201000a'', ''0x0102'')]
   \<and> fst (make_trie_root_and_nodes toy_library [[1], [2]]) = receiptsRoot toy_block"
proof -
  let ?w3 = "toy_web3 toy_block mutated"
  let ?ins = "PortalInserter [node_ok 0]"
  let ?tr1 = "[GetBlock [10] False, push_print ''0x0001000a'' ''0x0307'',
               MakeRequest 0 ''portal_historyStore'' [''0x0001000a'', ''0x0307'']]"
  let ?tr2 = "?tr1 @ [Print [''Collecting receipts to propagate...''],
               WaitForTransactionReceipt [1] 2, WaitForTransactionReceipt [2] 2]"
  have header: "propagate_header toy_library ?w3 ?ins 1 [10] [] = (Inr toy_block, ?ins, ?tr1)"
    by (simp add: run_defs hdr_hash_def toy_library_def toy_content_key_def toy_block_def
          toy_web3_def node_ok_def PortalInserter_def hex_defs)
  have col: "collect_receipts ?w3 (transactions toy_block)
               (?tr1 @ [Print [''Collecting receipts to propagate...'']])
             = (Inr [mutated [1], mutated [2]], ?tr2)"
    by (simp add: toy_block_def toy_web3_def)
  have converted: "convert_receipts toy_library [mutated [1], mutated [2]] (number toy_block)
                     = Inr [[2], [3]]"
    by (simp add: toy_library_def mutated_def)
  have root: "fst (make_trie_root_and_nodes toy_library [[2], [3]]) \<noteq> receiptsRoot toy_block"
    "fst (make_trie_root_and_nodes toy_library [[1], [2]]) = receiptsRoot toy_block"
    by (simp_all add: toy_library_def toy_block_def)
  from receipts_pushed_only_if_root_matches
         [of toy_library ?w3 ?ins 1 "[10]" "[]" toy_block ?ins ?tr1
             "[mutated [1], mutated [2]]" ?tr2 "[[2], [3]]"]
       header col converted root(1)
  have "handle_new_header toy_library ?w3 ?ins [10] 1 []
          = (Inl (ValidationError
                    (''Could not correctly encode receipts for header ''
                       @ hexbytes_hex (hash toy_block))),
             ?ins, ?tr2 @ [Print [''Collected receipts'']])"
    by blast
  then have stopped: "handle_new_header toy_library ?w3 ?ins [10] 1 []
          = (Inl (ValidationError ''Could not correctly encode receipts for header 0x0a''),
             ?ins, ?tr2 @ [Print [''Collected receipts'']])"
    by (simp add: toy_block_def hexbytes_hex_def hex_defs)
  let ?run = "propagate_receipts toy_library (toy_web3 toy_block id) ?ins 1 toy_block []"
  have pushed: "push_calls (snd (snd ?run)) = [(''0x0201000a'', ''0x0102'')]"
    by (simp add: run_defs toy_library_def toy_content_key_def toy_block_def toy_web3_def
          node_ok_def PortalInserter_def hex_defs push_calls_Cons push_calls_Nil)
  then have "push_calls (snd (snd ?run)) \<noteq> push_calls []"
    by (simp add: push_calls_Nil)
  with receipts_pushed_only_if_root_matches
         [of toy_library "toy_web3 toy_block id" ?ins 1 "[10]" "[]" toy_block ?ins "[]"
             "[]" "[]" "[]"]
  obtain rs cs where
    "fst (collect_receipts (toy_web3 toy_block id) (transactions toy_block)
            ([] @ [Print [''Collecting receipts to propagate...'']])) = Inr rs"
    "convert_receipts toy_library rs (number toy_block) = Inr cs"
    "fst (make_trie_root_and_nodes toy_library cs) = receiptsRoot toy_block"
    by blast
  with stopped converted root pushed show ?thesis by simp
qed




section \<open>The pipeline\<close>

lemma list_all_fetch_events:
  "list_all is_receipt_fetch_event
     (Print [''Collecting receipts to propagate...''] # map wait_event hs)"
  "list_all is_receipt_fetch_event
     (Print [''Collecting receipts to propagate...''] # map wait_event hs
        @ [Print [''Collected receipts'']])"
  by (simp_all add: list_all_iff is_receipt_fetch_event_def wait_event_def)

text \<open>
  Claim C3. The trace that a run of \<^verbatim>\<open>handle_new_header\<close> adds is the fetch of the block,
  then the events of the header push, then the events of the receipts fetch, then the
  events of the receipts push, each part possibly empty and a later part empty when an
  earlier one is. The header push starts only after the block was fetched, its header
  was built and encoded and the keccak of the encoding equals the asserted hash, and it
  pushes that encoding. The receipts fetch starts only after the header push went to
  every link. The receipts push starts only after every receipt was waited for, the
  receipts that the waits returned were converted and the trie root of the conversions
  equals the header's \<^verbatim>\<open>receiptsRoot\<close>, and it pushes the encoding of those receipts. When
  the header content cannot be built or fails validation, the run ends with that error
  and the trace holds the fetch of the block and nothing else; when the receipts content
  cannot be built or fails validation, the run ends with that error and no receipts push.
\<close>

theorem pipeline_stages_in_order:
  "(\<exists>hp ws rp.
      snd (snd (handle_new_header lib w3 inserter header_hash chain_id tr))
        = tr @ GetBlock header_hash False # hp @ ws @ rp
    \<and> list_all is_push_event hp \<and> list_all is_receipt_fetch_event ws
    \<and> list_all is_push_event rp
    \<and> (hp = [] \<longrightarrow> ws = []) \<and> (ws = [] \<longrightarrow> rp = [])
    \<and> (hp \<noteq> [] \<longrightarrow>
          (\<exists>b h k. get_block w3 tr header_hash False = Returns b
             \<and> block_fields_to_header lib b = Returns h
             \<and> keccak lib (rlp_encode lib h) = hash b
             \<and> header_content_key lib (hash b) chain_id = Returns k
             \<and> hd hp = push_print (encode_hex k) (encode_hex (rlp_encode lib h))))
    \<and> (ws \<noteq> [] \<longrightarrow>
          (\<exists>k v. hp = push_print (encode_hex k) (encode_hex v)
                       # map (store_request (encode_hex k) (encode_hex v))
                           (web3_links inserter))
          \<and> hd ws = Print [''Collecting receipts to propagate...''])
    \<and> (rp \<noteq> [] \<longrightarrow>
          (\<exists>b rs cs k v. get_block w3 tr header_hash False = Returns b
             \<and> collect_receipts w3 (transactions b)
                   (tr @ GetBlock header_hash False # hp
                       @ [Print [''Collecting receipts to propagate...'']])
                 = (Inr rs,
                    tr @ GetBlock header_hash False # hp
                       @ Print [''Collecting receipts to propagate...'']
                       # map wait_event (transactions b))
             \<and> ws = Print [''Collecting receipts to propagate...'']
                      # map wait_event (transactions b) @ [Print [''Collected receipts'']]
             \<and> convert_receipts lib rs (number b) = Inr cs
             \<and> fst (make_trie_root_and_nodes lib cs) = receiptsRoot b
             \<and> receipt_content_key lib (hash b) chain_id = Returns k
             \<and> receipt_content_value lib cs = Returns v
             \<and> hd rp = push_print (encode_hex k) (encode_hex v))))
   \<and> (get_block w3 tr header_hash False = Returns b
        \<and> block_fields_to_content lib b chain_id = Inl e \<longrightarrow>
          handle_new_header lib w3 inserter header_hash chain_id tr
            = (Inl e, inserter, tr @ [GetBlock header_hash False]))
   \<and> (propagate_header lib w3 inserter chain_id header_hash tr = (Inr b, inserter1, tr1)
        \<and> collect_receipts w3 (transactions b)
              (tr1 @ [Print [''Collecting receipts to propagate...'']]) = (Inr rs, tr2)
        \<and> encode_receipts_content lib rs chain_id (hash b) (number b) (receiptsRoot b)
            = Inl e \<longrightarrow>
          handle_new_header lib w3 inserter header_hash chain_id tr
            = (Inl e, inserter, tr2 @ [Print [''Collected receipts'']])
        \<and> push_calls (tr2 @ [Print [''Collected receipts'']]) = push_calls tr1
        \<and> store_requests (tr2 @ [Print [''Collected receipts'']]) = store_requests tr1)"
proof (intro conjI impI)
  assume "get_block w3 tr header_hash False = Returns b
        \<and> block_fields_to_content lib b chain_id = Inl e"
  then show "handle_new_header lib w3 inserter header_hash chain_id tr
            = (Inl e, inserter, tr @ [GetBlock header_hash False])"
    by (simp add: propagate_header_invalid handle_new_header_header_failed)
next
  let ?c = "Print [''Collecting receipts to propagate...'']"
  let ?d = "Print [''Collected receipts'']"
  assume failed: "propagate_header lib w3 inserter chain_id header_hash tr
                    = (Inr b, inserter1, tr1)
        \<and> collect_receipts w3 (transactions b) (tr1 @ [?c]) = (Inr rs, tr2)
        \<and> encode_receipts_content lib rs chain_id (hash b) (number b) (receiptsRoot b)
            = Inl e"
  then have header: "propagate_header lib w3 inserter chain_id header_hash tr
                       = (Inr b, inserter1, tr1)"
    and col: "collect_receipts w3 (transactions b) (tr1 @ [?c]) = (Inr rs, tr2)"
    and invalid: "encode_receipts_content lib rs chain_id (hash b) (number b) (receiptsRoot b)
                    = Inl e"
    by simp_all
  from propagate_header_returned [OF header] have same: "inserter1 = inserter" by blast
  from propagate_receipts_invalid [OF col invalid, of inserter] header same
  show "handle_new_header lib w3 inserter header_hash chain_id tr
            = (Inl e, inserter, tr2 @ [?d])"
    by (simp add: handle_new_header_def)
  from collect_receipts_returned [OF col]
  have tr2: "tr2 = (tr1 @ [?c]) @ map wait_event (transactions b)" .
  show "push_calls (tr2 @ [?d]) = push_calls tr1"
    unfolding tr2 by (simp only: quiet_prints quiet_waits)
  show "store_requests (tr2 @ [?d]) = store_requests tr1"
    unfolding tr2 by (simp only: quiet_prints quiet_waits)
next
  let ?run = "handle_new_header lib w3 inserter header_hash chain_id tr"
  let ?c = "Print [''Collecting receipts to propagate...'']"
  let ?d = "Print [''Collected receipts'']"
  let ?goal = "\<lambda>hp ws rp.
      snd (snd ?run) = tr @ GetBlock header_hash False # hp @ ws @ rp
    \<and> list_all is_push_event hp \<and> list_all is_receipt_fetch_event ws
    \<and> list_all is_push_event rp
    \<and> (hp = [] \<longrightarrow> ws = []) \<and> (ws = [] \<longrightarrow> rp = [])
    \<and> (hp \<noteq> [] \<longrightarrow>
          (\<exists>b h k. get_block w3 tr header_hash False = Returns b
             \<and> block_fields_to_header lib b = Returns h
             \<and> keccak lib (rlp_encode lib h) = hash b
             \<and> header_content_key lib (hash b) chain_id = Returns k
             \<and> hd hp = push_print (encode_hex k) (encode_hex (rlp_encode lib h))))
    \<and> (ws \<noteq> [] \<longrightarrow>
          (\<exists>k v. hp = push_print (encode_hex k) (encode_hex v)
                       # map (store_request (encode_hex k) (encode_hex v))
                           (web3_links inserter))
          \<and> hd ws = ?c)
    \<and> (rp \<noteq> [] \<longrightarrow>
          (\<exists>b rs cs k v. get_block w3 tr header_hash False = Returns b
             \<and> collect_receipts w3 (transactions b)
                   (tr @ GetBlock header_hash False # hp @ [?c])
                 = (Inr rs,
                    tr @ GetBlock header_hash False # hp
                       @ ?c # map wait_event (transactions b))
             \<and> ws = ?c # map wait_event (transactions b) @ [?d]
             \<and> convert_receipts lib rs (number b) = Inr cs
             \<and> fst (make_trie_root_and_nodes lib cs) = receiptsRoot b
             \<and> receipt_content_key lib (hash b) chain_id = Returns k
             \<and> receipt_content_value lib cs = Returns v
             \<and> hd rp = push_print (encode_hex k) (encode_hex v)))"
  have found: "\<exists>hp ws rp. ?goal hp ws rp" if "?goal hp ws rp" for hp ws rp
    by (rule exI, rule exI, rule exI, rule that)
  have fetched_only: "\<exists>hp ws rp. ?goal hp ws rp"
    if "snd (snd ?run) = tr @ [GetBlock header_hash False]"
    by (rule found [of "[]" "[]" "[]"]) (use that in simp)
  show "\<exists>hp ws rp. ?goal hp ws rp"
  proof (cases "get_block w3 tr header_hash False")
    case (Raises x)
    from propagate_header_not_fetched [OF this, of lib inserter chain_id]
    have "snd (snd ?run) = tr @ [GetBlock header_hash False]"
      by (simp add: handle_new_header_header_failed)
    then show ?thesis by (rule fetched_only)
  next
    case (Returns b')
    show ?thesis
    proof (cases "block_fields_to_content lib b' chain_id")
      case (Inl e')
      from propagate_header_invalid [OF Returns this, of inserter]
      have "snd (snd ?run) = tr @ [GetBlock header_hash False]"
        by (simp add: handle_new_header_header_failed)
      then show ?thesis by (rule fetched_only)
    next
      case (Inr kv)
      obtain k v where "kv = (k, v)" by (cases kv)
      with Inr have content: "block_fields_to_content lib b' chain_id = Inr (k, v)" by simp
      from block_fields_to_content_returned [OF content] obtain h where
        checks: "block_fields_to_header lib b' = Returns h"
          "keccak lib (rlp_encode lib h) = hash b'"
          "header_content_key lib (hash b') chain_id = Returns k"
        and v: "v = rlp_encode lib h"
        by blast
      let ?hp = "\<lambda>n. push_print (encode_hex k) (encode_hex v)
                # map (store_request (encode_hex k) (encode_hex v))
                    (take n (web3_links inserter))"
      from propagate_header_valid [OF Returns content, of inserter] obtain n r where
        header: "propagate_header lib w3 inserter chain_id header_hash tr
          = (r, inserter, tr @ GetBlock header_hash False # ?hp n)"
        and r: "r = Inr b' \<or> (\<exists>x. r = Inl (ProviderException x))"
        and full: "r = Inr b' \<longrightarrow> n = length (web3_links inserter)"
        by blast
      have hp: "list_all is_push_event (?hp m)" "?hp m \<noteq> []" for m
        using list_all_push_events [of "encode_hex k" "encode_hex v" "take m (web3_links inserter)"]
        by simp_all
      have validated: "\<exists>b h k. get_block w3 tr header_hash False = Returns b
             \<and> block_fields_to_header lib b = Returns h
             \<and> keccak lib (rlp_encode lib h) = hash b
             \<and> header_content_key lib (hash b) chain_id = Returns k
             \<and> hd (?hp m) = push_print (encode_hex k) (encode_hex (rlp_encode lib h))" for m
        using Returns checks v by auto
      from r show ?thesis
      proof
        assume "\<exists>x. r = Inl (ProviderException x)"
        then obtain x where "r = Inl (ProviderException x)" ..
        with header have "snd (snd ?run) = tr @ GetBlock header_hash False # ?hp n @ [] @ []"
          by (simp add: handle_new_header_header_failed)
        with hp [of n] validated [of n] have "?goal (?hp n) [] []"
          by simp
        then show ?thesis by (rule found)
      next
        assume "r = Inr b'"
        with header full
        have header': "propagate_header lib w3 inserter chain_id header_hash tr
          = (Inr b', inserter, tr @ GetBlock header_hash False # ?hp (length (web3_links inserter)))"
          by simp
        let ?tr1 = "tr @ GetBlock header_hash False # ?hp (length (web3_links inserter))"
        let ?all = "?hp (length (web3_links inserter))"
        have sent: "\<exists>k' v'. ?all = push_print (encode_hex k') (encode_hex v')
                # map (store_request (encode_hex k') (encode_hex v')) (web3_links inserter)"
          by (rule exI [of _ k], rule exI [of _ v]) simp
        from handle_new_header_continues [OF header']
        have run: "?run = propagate_receipts lib w3 inserter chain_id b' ?tr1" .
        from propagate_receipts_shape [of b' lib w3 inserter chain_id ?tr1]
        consider (waiting) m x where
            "propagate_receipts lib w3 inserter chain_id b' ?tr1
               = (Inl (ProviderException x), inserter,
                  ?tr1 @ ?c # map wait_event (take m (transactions b')))"
          | (invalid) e' where
            "propagate_receipts lib w3 inserter chain_id b' ?tr1
               = (Inl e', inserter, ?tr1 @ ?c # map wait_event (transactions b') @ [?d])"
          | (valid) rs' k' v' m r' where
            "collect_receipts w3 (transactions b') (?tr1 @ [?c])
               = (Inr rs', ?tr1 @ ?c # map wait_event (transactions b'))"
            "encode_receipts_content lib rs' chain_id (hash b') (number b') (receiptsRoot b')
               = Inr (k', v')"
            "propagate_receipts lib w3 inserter chain_id b' ?tr1
               = (r', inserter,
                  ?tr1 @ ?c # map wait_event (transactions b') @ ?d
                      # push_print (encode_hex k') (encode_hex v')
                      # map (store_request (encode_hex k') (encode_hex v'))
                          (take m (web3_links inserter)))"
          by blast
        then show ?thesis
        proof cases
          case waiting
          let ?ws = "?c # map wait_event (take m (transactions b'))"
          from waiting run have "snd (snd ?run) = tr @ GetBlock header_hash False # ?all @ ?ws @ []"
            by simp
          with hp [of "length (web3_links inserter)"]
            validated [of "length (web3_links inserter)"] sent
            list_all_fetch_events(1) [of "take m (transactions b')"]
          have "?goal ?all ?ws []"
            by simp
          then show ?thesis by (rule found)
        next
          case invalid
          let ?ws = "?c # map wait_event (transactions b') @ [?d]"
          from invalid run have "snd (snd ?run) = tr @ GetBlock header_hash False # ?all @ ?ws @ []"
            by simp
          with hp [of "length (web3_links inserter)"]
            validated [of "length (web3_links inserter)"] sent
            list_all_fetch_events(2) [of "transactions b'"]
          have "?goal ?all ?ws []"
            by simp
          then show ?thesis by (rule found)
        next
          case valid
          let ?ws = "?c # map wait_event (transactions b') @ [?d]"
          let ?rp = "push_print (encode_hex k') (encode_hex v')
                      # map (store_request (encode_hex k') (encode_hex v'))
                          (take m (web3_links inserter))"
          from encode_receipts_content_returned [OF valid(2)] obtain cs where
            cs: "convert_receipts lib rs' (number b') = Inr cs"
              "fst (make_trie_root_and_nodes lib cs) = receiptsRoot b'"
              "receipt_content_key lib (hash b') chain_id = Returns k'"
              "receipt_content_value lib cs = Returns v'"
            by blast
          from valid(3) run
          have trace: "snd (snd ?run) = tr @ GetBlock header_hash False # ?all @ ?ws @ ?rp"
            by simp
          have pushes: "list_all is_push_event ?rp"
            by (rule list_all_push_events)
          have receipts: "\<exists>b rs cs k v. get_block w3 tr header_hash False = Returns b
             \<and> collect_receipts w3 (transactions b)
                   (tr @ GetBlock header_hash False # ?all @ [?c])
                 = (Inr rs,
                    tr @ GetBlock header_hash False # ?all
                       @ ?c # map wait_event (transactions b))
             \<and> ?ws = ?c # map wait_event (transactions b) @ [?d]
             \<and> convert_receipts lib rs (number b) = Inr cs
             \<and> fst (make_trie_root_and_nodes lib cs) = receiptsRoot b
             \<and> receipt_content_key lib (hash b) chain_id = Returns k
             \<and> receipt_content_value lib cs = Returns v
             \<and> hd ?rp = push_print (encode_hex k) (encode_hex v)"
            using Returns valid(1) cs
            by (intro exI [of _ b'] exI [of _ rs'] exI [of _ cs] exI [of _ k'] exI [of _ v'])
               simp
          from trace pushes receipts hp [of "length (web3_links inserter)"]
            validated [of "length (web3_links inserter)"] sent
            list_all_fetch_events(2) [of "transactions b'"]
          have "?goal ?all ?ws ?rp"
            by simp
          then show ?thesis by (rule found)
        qed
      qed
    qed
  qed
qed

theorem pipeline_stages_in_order_witness:
  "get_block (toy_web3 toy_block_wrong_hash id) [] [11] False = Returns toy_block_wrong_hash
   \<and> block_fields_to_content toy_library toy_block_wrong_hash 1
       = Inl (ValidationError ''Could not correctly encode header fields'')
   \<and> handle_new_header toy_library (toy_web3 toy_block_wrong_hash id)
         (PortalInserter [node_ok 0]) [11] 1 []
       = (Inl (ValidationError ''Could not correctly encode header fields''),
          PortalInserter [node_ok 0], [GetBlock [11] False])
   \<and> encode_receipts_content toy_library [mutated [1], mutated [2]] 1 (hash toy_block)
         (number toy_block) (receiptsRoot toy_block)
       = Inl (ValidationError ''Could not correctly encode receipts for header 0x0a'')
   \<and> handle_new_header toy_library (toy_web3 toy_block mutated)
         (PortalInserter [node_ok 0]) [10] 1 []
       = (Inl (ValidationError ''Could not correctly encode receipts for header 0x0a''),
          PortalInserter [node_ok 0],
          [GetBlock [10] False, push_print ''0x0001000a'' ''0x0307'',
           MakeRequest 0 ''portal_historyStore'' [''0x0001000a'', ''0x0307''],
           Print [''Collecting receipts to propagate...''],
           WaitForTransactionReceipt [1] 2, WaitForTransactionReceipt [2] 2,
           Print [''Collected receipts'']])
   \<and> snd (snd (handle_new_header toy_library (toy_web3 toy_block id)
                  (PortalInserter [node_ok 0]) [10] 1 []))
       = [] @ GetBlock [10] False
           # [push_print ''0x0001000a'' ''0x0307'',
              MakeRequest 0 ''portal_historyStore'' [''0x0001000a'', ''0x0307'']]
           @ [Print [''Collecting receipts to propagate...''],
              WaitForTransactionReceipt [1] 2, WaitForTransactionReceipt [2] 2,
              Print [''Collected receipts'']]
           @ [push_print ''0x0201000a'' ''0x0102'',
              MakeRequest 0 ''portal_historyStore'' [''0x0201000a'', ''0x0102'']]"
proof -
  let ?ins = "PortalInserter [node_ok 0]"
  let ?c = "Print [''Collecting receipts to propagate...'']"
  let ?d = "Print [''Collected receipts'']"
  let ?tr1 = "[GetBlock [10] False, push_print ''0x0001000a'' ''0x0307'',
               MakeRequest 0 ''portal_historyStore'' [''0x0001000a'', ''0x0307'']]"
  let ?tr2 = "?tr1 @ [?c, WaitForTransactionReceipt [1] 2, WaitForTransactionReceipt [2] 2]"
  have fetched: "get_block (toy_web3 toy_block_wrong_hash id) [] [11] False
                   = Returns toy_block_wrong_hash"
    by (simp add: toy_web3_def toy_block_wrong_hash_def toy_block_def)
  have invalid: "block_fields_to_content toy_library toy_block_wrong_hash 1
       = Inl (ValidationError ''Could not correctly encode header fields'')"
    by (simp add: block_fields_to_content_def toy_library_def toy_block_def
          toy_block_wrong_hash_def)
  from pipeline_stages_in_order
         [of toy_library "toy_web3 toy_block_wrong_hash id" ?ins "[11]" 1 "[]"
             toy_block_wrong_hash
             "ValidationError ''Could not correctly encode header fields''"]
       fetched invalid
  have header_failed: "handle_new_header toy_library (toy_web3 toy_block_wrong_hash id) ?ins
                         [11] 1 []
          = (Inl (ValidationError ''Could not correctly encode header fields''), ?ins,
             [] @ [GetBlock [11] False])"
    by blast
  have header: "propagate_header toy_library (toy_web3 toy_block mutated) ?ins 1 [10] []
                  = (Inr toy_block, ?ins, ?tr1)"
    by (simp add: run_defs hdr_hash_def toy_library_def toy_content_key_def toy_block_def
          toy_web3_def node_ok_def PortalInserter_def hex_defs)
  have col: "collect_receipts (toy_web3 toy_block mutated) (transactions toy_block)
               (?tr1 @ [?c]) = (Inr [mutated [1], mutated [2]], ?tr2)"
    by (simp add: toy_block_def toy_web3_def)
  have rejected: "encode_receipts_content toy_library [mutated [1], mutated [2]] 1
         (hash toy_block) (number toy_block) (receiptsRoot toy_block)
       = Inl (ValidationError ''Could not correctly encode receipts for header 0x0a'')"
    by (simp add: encode_receipts_content_def toy_library_def toy_block_def mutated_def
          hexbytes_hex_def hex_defs)
  from pipeline_stages_in_order
         [of toy_library "toy_web3 toy_block mutated" ?ins "[10]" 1 "[]" toy_block
             "ValidationError ''Could not correctly encode receipts for header 0x0a''"
             ?ins ?tr1 "[mutated [1], mutated [2]]" ?tr2]
       header col rejected
  have receipts_failed: "handle_new_header toy_library (toy_web3 toy_block mutated) ?ins
                           [10] 1 []
          = (Inl (ValidationError ''Could not correctly encode receipts for header 0x0a''),
             ?ins, ?tr2 @ [?d])"
    by blast
  have "snd (snd (handle_new_header toy_library (toy_web3 toy_block id) ?ins [10] 1 []))
       = [GetBlock [10] False, push_print ''0x0001000a'' ''0x0307'',
          MakeRequest 0 ''portal_historyStore'' [''0x0001000a'', ''0x0307''],
          ?c, WaitForTransactionReceipt [1] 2, WaitForTransactionReceipt [2] 2, ?d,
          push_print ''0x0201000a'' ''0x0102'',
          MakeRequest 0 ''portal_historyStore'' [''0x0201000a'', ''0x0102'']]"
    by (simp add: run_defs hdr_hash_def toy_library_def toy_content_key_def toy_block_def
          toy_web3_def node_ok_def PortalInserter_def hex_defs)
  with header_failed receipts_failed fetched invalid rejected show ?thesis by simp
qed

lemma propagate_header_pushed:
  assumes "get_block w3 tr hh False = Returns b"
    and "block_fields_to_content lib b cid = Inr (k, v)"
    and "push_history inserter k v (tr @ [GetBlock hh False]) = (Inr (), inserter, tr1)"
  shows "propagate_header lib w3 inserter cid hh tr = (Inr b, inserter, tr1)"
  using assms by (simp add: propagate_header_def)

lemma collect_receipts_returns:
  "length rs = length txns \<Longrightarrow>
   (\<And>i. i < length txns \<Longrightarrow>
      wait_for_transaction_receipt w3 (tr @ map wait_event (take i txns)) (txns ! i) 2
        = Returns (rs ! i))
   \<Longrightarrow> collect_receipts w3 txns tr = (Inr rs, tr @ map wait_event txns)"
proof (induction txns arbitrary: tr rs)
  case Nil
  then show ?case by simp
next
  case (Cons h rest)
  from Cons.prems(1) obtain r rs' where rs: "rs = r # rs'" "length rs' = length rest"
    by (cases rs) auto
  from Cons.prems(2) [of 0] rs
  have first: "wait_for_transaction_receipt w3 tr h 2 = Returns r" by simp
  have "collect_receipts w3 rest (tr @ [wait_event h])
          = (Inr rs', (tr @ [wait_event h]) @ map wait_event rest)"
  proof (rule Cons.IH [OF rs(2)])
    fix i assume "i < length rest"
    with Cons.prems(2) [of "Suc i"] rs
    show "wait_for_transaction_receipt w3
            ((tr @ [wait_event h]) @ map wait_event (take i rest)) (rest ! i) 2
          = Returns (rs' ! i)"
      by simp
  qed
  with first rs show ?case by (simp add: wait_event_def)
qed

text \<open>
  Claim C5, as the code has it. Take a block that the provider returns, whose header
  object can be built, whose encoded header has the keccak that the block asserts, and
  whose receipts, as the waits return them and as they are converted, have the trie root
  that the header asserts. When, further, nothing raises on the way (each of the two
  content keys and the receipts content value can be built, each wait for a receipt
  returns, and each store request of the two pushes returns), \<^verbatim>\<open>handle_new_header\<close> returns
  without an error and calls \<^verbatim>\<open>push_history\<close> exactly twice: first with the header key and
  the encoded header, then with the receipts key and the encoded receipts. The trace of
  the run is given in full.
\<close>

theorem handle_new_header_pushes_header_then_receipts:
  assumes fetched: "get_block w3 tr header_hash False = Returns b"
    and built: "block_fields_to_header lib b = Returns h"
    and keccak_ok: "keccak lib (rlp_encode lib h) = hash b"
    and header_key: "header_content_key lib (hash b) chain_id = Returns k"
    and hk: "hk = encode_hex k"
    and hv: "hv = encode_hex (rlp_encode lib h)"
    and tr1: "tr1 = tr @ GetBlock header_hash False
                  # push_print hk hv # map (store_request hk hv) (web3_links inserter)"
    and header_requests:
      "\<forall>i<length (web3_links inserter).
         link_returns (web3_links inserter ! i) hk hv
           (tr @ GetBlock header_hash False
               # push_print hk hv # map (store_request hk hv) (take i (web3_links inserter)))"
    and waits:
      "\<forall>i<length (transactions b).
         wait_for_transaction_receipt w3
           (tr1 @ Print [''Collecting receipts to propagate...'']
                # map (\<lambda>h. WaitForTransactionReceipt h 2) (take i (transactions b)))
           (transactions b ! i) 2 = Returns (rs ! i)"
    and all_receipts: "length rs = length (transactions b)"
    and converted: "convert_receipts lib rs (number b) = Inr cs"
    and root_ok: "fst (make_trie_root_and_nodes lib cs) = receiptsRoot b"
    and receipts_key: "receipt_content_key lib (hash b) chain_id = Returns k'"
    and receipts_value: "receipt_content_value lib cs = Returns v'"
    and rk: "rk = encode_hex k'"
    and rv: "rv = encode_hex v'"
    and tr3: "tr3 = tr1 @ Print [''Collecting receipts to propagate...'']
                  # map (\<lambda>h. WaitForTransactionReceipt h 2) (transactions b)
                  @ [Print [''Collected receipts'']]"
    and receipts_requests:
      "\<forall>i<length (web3_links inserter).
         link_returns (web3_links inserter ! i) rk rv
           (tr3 @ push_print rk rv # map (store_request rk rv) (take i (web3_links inserter)))"
  shows "handle_new_header lib w3 inserter header_hash chain_id tr
           = (Inr (), inserter,
              tr3 @ push_print rk rv # map (store_request rk rv) (web3_links inserter))
       \<and> push_calls (tr3 @ push_print rk rv # map (store_request rk rv) (web3_links inserter))
           = push_calls tr @ [(hk, hv), (rk, rv)]"
proof
  let ?c = "Print [''Collecting receipts to propagate...'']"
  let ?d = "Print [''Collected receipts'']"
  let ?v = "rlp_encode lib h"
  let ?tr2 = "(tr1 @ [?c]) @ map wait_event (transactions b)"
  have content: "block_fields_to_content lib b chain_id = Inr (k, ?v)"
    using built keccak_ok header_key by (simp add: block_fields_to_content_cases)
  have "push_history inserter k ?v (tr @ [GetBlock header_hash False])
          = (Inr (), inserter,
             (tr @ [GetBlock header_hash False])
               @ push_print (encode_hex k) (encode_hex ?v)
               # map (store_request (encode_hex k) (encode_hex ?v)) (web3_links inserter))"
    by (rule push_history_all_return) (use header_requests hk hv in simp)
  then have "push_history inserter k ?v (tr @ [GetBlock header_hash False])
          = (Inr (), inserter, tr1)"
    by (simp add: tr1 hk hv)
  from propagate_header_pushed [OF fetched content this]
  have header: "propagate_header lib w3 inserter chain_id header_hash tr
                  = (Inr b, inserter, tr1)" .
  have col: "collect_receipts w3 (transactions b) (tr1 @ [?c]) = (Inr rs, ?tr2)"
    by (rule collect_receipts_returns [OF all_receipts]) (use waits in \<open>simp add: wait_event_eq\<close>)
  have encoded: "encode_receipts_content lib rs chain_id (hash b) (number b) (receiptsRoot b)
                   = Inr (k', v')"
    using converted root_ok receipts_key receipts_value
    by (simp add: encode_receipts_content_cases)
  have same: "?tr2 @ [?d] = tr3"
    by (simp add: tr3 wait_event_eq)
  have "push_history inserter k' v' tr3
          = (Inr (), inserter,
             tr3 @ push_print (encode_hex k') (encode_hex v')
               # map (store_request (encode_hex k') (encode_hex v')) (web3_links inserter))"
    by (rule push_history_all_return) (use receipts_requests rk rv in simp)
  with propagate_receipts_valid [OF col encoded, of inserter] same
  have "propagate_receipts lib w3 inserter chain_id b tr1
          = (Inr (), inserter,
             tr3 @ push_print rk rv # map (store_request rk rv) (web3_links inserter))"
    by (simp add: rk rv)
  with handle_new_header_continues [OF header]
  show "handle_new_header lib w3 inserter header_hash chain_id tr
          = (Inr (), inserter,
             tr3 @ push_print rk rv # map (store_request rk rv) (web3_links inserter))"
    by simp
  have "push_calls (tr3 @ push_print rk rv # map (store_request rk rv) (web3_links inserter))
          = push_calls tr3 @ [(rk, rv)]"
    by (rule push_calls_push)
  also have "push_calls tr3 = push_calls tr1"
    unfolding same [symmetric] by (simp only: quiet_prints quiet_waits)
  also have "push_calls tr1 = push_calls (tr @ [GetBlock header_hash False]) @ [(hk, hv)]"
    using push_calls_push [of "tr @ [GetBlock header_hash False]" hk hv "web3_links inserter"]
    by (simp add: tr1)
  also have "push_calls (tr @ [GetBlock header_hash False]) = push_calls tr"
    by (simp add: push_calls_append push_calls_Cons push_calls_Nil)
  finally show "push_calls (tr3 @ push_print rk rv
                              # map (store_request rk rv) (web3_links inserter))
                  = push_calls tr @ [(hk, hv), (rk, rv)]"
    by simp
qed

theorem handle_new_header_pushes_header_then_receipts_witness:
  "handle_new_header toy_library (toy_web3 toy_block id)
       (PortalInserter [node_ok 0, node_rejecting 1]) [10] 1 []
     = (Inr (), PortalInserter [node_ok 0, node_rejecting 1],
        [GetBlock [10] False,
         push_print ''0x0001000a'' ''0x0307'',
         MakeRequest 0 ''portal_historyStore'' [''0x0001000a'', ''0x0307''],
         MakeRequest 1 ''portal_historyStore'' [''0x0001000a'', ''0x0307''],
         Print [''Collecting receipts to propagate...''],
         WaitForTransactionReceipt [1] 2, WaitForTransactionReceipt [2] 2,
         Print [''Collected receipts''],
         push_print ''0x0201000a'' ''0x0102'',
         MakeRequest 0 ''portal_historyStore'' [''0x0201000a'', ''0x0102''],
         MakeRequest 1 ''portal_historyStore'' [''0x0201000a'', ''0x0102'']])
   \<and> push_calls (snd (snd (handle_new_header toy_library (toy_web3 toy_block id)
                             (PortalInserter [node_ok 0, node_rejecting 1]) [10] 1 [])))
       = [(''0x0001000a'', ''0x0307''), (''0x0201000a'', ''0x0102'')]"
proof -
  let ?w3 = "toy_web3 toy_block id"
  let ?ins = "PortalInserter [node_ok 0, node_rejecting 1]"
  let ?c = "Print [''Collecting receipts to propagate...'']"
  let ?d = "Print [''Collected receipts'']"
  let ?tr1 = "[GetBlock [10] False,
         push_print ''0x0001000a'' ''0x0307'',
         MakeRequest 0 ''portal_historyStore'' [''0x0001000a'', ''0x0307''],
         MakeRequest 1 ''portal_historyStore'' [''0x0001000a'', ''0x0307'']]"
  let ?tr3 = "?tr1 @ [?c, WaitForTransactionReceipt [1] 2, WaitForTransactionReceipt [2] 2, ?d]"
  let ?tr' = "?tr3 @ [push_print ''0x0201000a'' ''0x0102'',
         MakeRequest 0 ''portal_historyStore'' [''0x0201000a'', ''0x0102''],
         MakeRequest 1 ''portal_historyStore'' [''0x0201000a'', ''0x0102'']]"
  have "handle_new_header toy_library ?w3 ?ins [10] 1 []
          = (Inr (), ?ins,
             ?tr3 @ push_print ''0x0201000a'' ''0x0102''
                  # map (store_request ''0x0201000a'' ''0x0102'') (web3_links ?ins))
       \<and> push_calls (?tr3 @ push_print ''0x0201000a'' ''0x0102''
                  # map (store_request ''0x0201000a'' ''0x0102'') (web3_links ?ins))
           = push_calls [] @ [(''0x0001000a'', ''0x0307''), (''0x0201000a'', ''0x0102'')]"
  proof (rule handle_new_header_pushes_header_then_receipts
                [where b = toy_block and h = "[3, 7]" and k = "[0, 1, 0, 10]"
                   and rs = "[[1], [2]]" and cs = "[[1], [2]]" and k' = "[2, 1, 0, 10]"
                   and v' = "[1, 2]" and ?tr1.0 = ?tr1])
    show "get_block ?w3 [] [10] False = Returns toy_block"
      by (simp add: toy_web3_def toy_block_def)
    show "block_fields_to_header toy_library toy_block = Returns [3, 7]"
      by (simp add: toy_library_def toy_block_def)
    show "keccak toy_library (rlp_encode toy_library [3, 7]) = hash toy_block"
      by (simp add: toy_library_def toy_block_def)
    show "header_content_key toy_library (hash toy_block) 1 = Returns [0, 1, 0, 10]"
      by (simp add: toy_library_def toy_block_def toy_content_key_def)
    show "''0x0001000a'' = encode_hex [0, 1, 0, 10]"
      by (simp add: hex_defs)
    show "''0x0307'' = encode_hex (rlp_encode toy_library [3, 7])"
      by (simp add: toy_library_def hex_defs)
    show "?tr1 = [] @ GetBlock [10] False # push_print ''0x0001000a'' ''0x0307''
                  # map (store_request ''0x0001000a'' ''0x0307'') (web3_links ?ins)"
      by (simp add: node_ok_def node_rejecting_def PortalInserter_def store_request_def)
    show "\<forall>i<length (web3_links ?ins).
         link_returns (web3_links ?ins ! i) ''0x0001000a'' ''0x0307''
           ([] @ GetBlock [10] False # push_print ''0x0001000a'' ''0x0307''
               # map (store_request ''0x0001000a'' ''0x0307'') (take i (web3_links ?ins)))"
      by (simp add: node_ok_def node_rejecting_def PortalInserter_def link_returns_def
            less_Suc_eq nth_Cons')
    show "\<forall>i<length (transactions toy_block).
         wait_for_transaction_receipt ?w3
           (?tr1 @ ?c # map (\<lambda>h. WaitForTransactionReceipt h 2)
                          (take i (transactions toy_block)))
           (transactions toy_block ! i) 2 = Returns ([[1], [2]] ! i)"
      by (simp add: toy_web3_def toy_block_def less_Suc_eq nth_Cons')
    show "length [[1], [2 :: 8 word]] = length (transactions toy_block)"
      by (simp add: toy_block_def)
    show "convert_receipts toy_library [[1], [2]] (number toy_block) = Inr [[1], [2]]"
      by (simp add: toy_library_def)
    show "fst (make_trie_root_and_nodes toy_library [[1], [2]]) = receiptsRoot toy_block"
      by (simp add: toy_library_def toy_block_def)
    show "receipt_content_key toy_library (hash toy_block) 1 = Returns [2, 1, 0, 10]"
      by (simp add: toy_library_def toy_block_def toy_content_key_def)
    show "receipt_content_value toy_library [[1], [2]] = Returns [1, 2]"
      by (simp add: toy_library_def)
    show "''0x0201000a'' = encode_hex [2, 1, 0, 10]"
      by (simp add: hex_defs)
    show "''0x0102'' = encode_hex [1, 2]"
      by (simp add: hex_defs)
    show "?tr3 = ?tr1 @ ?c # map (\<lambda>h. WaitForTransactionReceipt h 2) (transactions toy_block)
                  @ [?d]"
      by (simp add: toy_block_def)
    show "\<forall>i<length (web3_links ?ins).
         link_returns (web3_links ?ins ! i) ''0x0201000a'' ''0x0102''
           (?tr3 @ push_print ''0x0201000a'' ''0x0102''
               # map (store_request ''0x0201000a'' ''0x0102'') (take i (web3_links ?ins)))"
      by (simp add: node_ok_def node_rejecting_def PortalInserter_def link_returns_def
            less_Suc_eq nth_Cons')
  qed
  then have "handle_new_header toy_library ?w3 ?ins [10] 1 [] = (Inr (), ?ins, ?tr')
       \<and> push_calls ?tr' = [(''0x0001000a'', ''0x0307''), (''0x0201000a'', ''0x0102'')]"
    by (simp add: node_ok_def node_rejecting_def PortalInserter_def store_request_def
          push_calls_Nil)
  then show ?thesis by simp
qed

text \<open>
  The claim as the spec words it asks only for the keccak of the encoded header and for
  the receipts root. With both as asserted, the run still ends in an error inside the
  first push when the node cannot be reached, and it ends in an error before any push
  when the chain id does not fit the content key.
\<close>

theorem handle_new_header_node_down_counterexample:
  "block_fields_to_header toy_library toy_block = Returns [3, 7]
   \<and> keccak toy_library (rlp_encode toy_library [3, 7]) = hash toy_block
   \<and> convert_receipts toy_library [[1], [2]] (number toy_block) = Inr [[1], [2]]
   \<and> fst (make_trie_root_and_nodes toy_library [[1], [2]]) = receiptsRoot toy_block
   \<and> handle_new_header toy_library (toy_web3 toy_block id)
         (PortalInserter [node_down 0]) [10] 1 []
       = (Inl (ProviderException ''ConnectionError''),
          PortalInserter [node_down 0],
          [GetBlock [10] False, push_print ''0x0001000a'' ''0x0307'',
           MakeRequest 0 ''portal_historyStore'' [''0x0001000a'', ''0x0307'']])
   \<and> handle_new_header toy_library (toy_web3 toy_block id)
         (PortalInserter [node_ok 0]) [10] 65536 []
       = (Inl (LibraryException ''SerializationError''),
          PortalInserter [node_ok 0], [GetBlock [10] False])"
  by (simp add: run_defs hdr_hash_def toy_library_def toy_content_key_def toy_block_def
        toy_web3_def node_ok_def node_down_def PortalInserter_def hex_defs)

end
